theory Spec2Isabelle
  imports Main "HOL-Library.AList" "HOL-Library.Char_ord" "HOL-Library.List_Lexorder"
    "HOL-Library.Multiset"
begin

section \<open>Strings as Python sees them\<close>

text \<open>
  A Python \<open>str\<close> is modelled as an Isabelle \<open>string\<close>: a list of 8-bit characters, read
  as the code points U+0000 .. U+00FF. The library functions below follow CPython on that
  range. Strings compare lexicographically by code point, as Python's \<open>str\<close> does.
\<close>

definition newline :: char where
  "newline = CHR 0x0A"

definition is_space :: "char \<Rightarrow> bool" where
  \<comment> \<open>\<open>str.isspace\<close> on one character\<close>
  "is_space c = ((of_char c :: nat) \<in> {9, 10, 11, 12, 13, 28, 29, 30, 31, 32, 133, 160})"

definition lstrip :: "string \<Rightarrow> string" where
  "lstrip s = dropWhile is_space s"

definition rstrip :: "string \<Rightarrow> string" where
  "rstrip s = rev (dropWhile is_space (rev s))"

definition strip :: "string \<Rightarrow> string" where
  \<comment> \<open>\<open>str.strip()\<close>: whitespace is removed at both ends\<close>
  "strip s = rstrip (lstrip s)"

definition is_digit :: "char \<Rightarrow> bool" where
  \<comment> \<open>the class \<open>\d\<close> on this range: the ASCII digits\<close>
  "is_digit c = (48 \<le> (of_char c :: nat) \<and> (of_char c :: nat) \<le> 57)"

definition lower_char :: "char \<Rightarrow> char" where
  "lower_char c =
     (let n = (of_char c :: nat)
      in if (65 \<le> n \<and> n \<le> 90) \<or> (192 \<le> n \<and> n \<le> 222 \<and> n \<noteq> 215)
         then char_of (n + 32) else c)"

definition lower :: "string \<Rightarrow> string" where
  \<comment> \<open>\<open>str.lower()\<close>\<close>
  "lower s = map lower_char s"

definition startswith :: "string \<Rightarrow> string \<Rightarrow> bool" where
  "startswith s p = (take (length p) s = p)"

section \<open>Exceptions\<close>

text \<open>
  The exceptions the pipeline meets, all subclasses of Python's \<open>Exception\<close>.
  \<open>OtherException\<close> stands for any further \<open>Exception\<close> a plug-in may raise.
\<close>

datatype error =
    UnparsableLogError
  | AssertionError string
  | FileExistsError string
  | FileNotFoundError string
  | IsADirectoryError string
  | NotADirectoryError string
  | AttributeError
  | IndexError
  | KeyError string
  | StopIteration
  | OtherException string

subsection \<open>The text of an exception\<close>

definition hex_digit :: "nat \<Rightarrow> char" where
  "hex_digit n = (if n < 10 then char_of (48 + n) else char_of (87 + n))"

definition backslash :: char where
  "backslash = CHR 0x5C"

definition repr_char :: "char \<Rightarrow> char \<Rightarrow> string" where
  \<comment> \<open>one character inside \<open>repr(s)\<close>, for the quote that \<open>repr\<close> chose\<close>
  "repr_char quote c =
     (let n = (of_char c :: nat)
      in if c = quote \<or> c = backslash then [backslash, c]
         else if n = 9 then [backslash, CHR ''t'']
         else if n = 10 then [backslash, CHR ''n'']
         else if n = 13 then [backslash, CHR ''r'']
         else if n < 32 \<or> n = 127 \<or> (128 \<le> n \<and> n \<le> 160) \<or> n = 173
         then [backslash, CHR ''x'', hex_digit (n div 16), hex_digit (n mod 16)]
         else [c])"

definition py_repr :: "string \<Rightarrow> string" where
  \<comment> \<open>\<open>repr(s)\<close> of a string: double quotes when it holds a single and no double quote\<close>
  "py_repr s =
     (let quote = (if CHR 0x27 \<in> set s \<and> CHR 0x22 \<notin> set s then CHR 0x22 else CHR 0x27)
      in [quote] @ concat (map (repr_char quote) s) @ [quote])"

text \<open>
  The errors of the operating system carry their text, built as CPython's \<open>OSError\<close>
  prints it: \<open>[Errno 17] File exists: '/path'\<close>.
\<close>

definition eexist :: "string \<Rightarrow> error" where
  "eexist p = FileExistsError (''[Errno 17] File exists: '' @ py_repr p)"

definition enoent :: "string \<Rightarrow> error" where
  "enoent p = FileNotFoundError (''[Errno 2] No such file or directory: '' @ py_repr p)"

definition enotdir :: "string \<Rightarrow> error" where
  "enotdir p = NotADirectoryError (''[Errno 20] Not a directory: '' @ py_repr p)"

definition eisdir :: "string \<Rightarrow> error" where
  "eisdir p = IsADirectoryError (''[Errno 21] Is a directory: '' @ py_repr p)"

definition str_error :: "error \<Rightarrow> string" where
  \<comment> \<open>\<open>str(e)\<close>\<close>
  "str_error e =
     (case e of
        AssertionError m \<Rightarrow> m
      | FileExistsError m \<Rightarrow> m
      | FileNotFoundError m \<Rightarrow> m
      | IsADirectoryError m \<Rightarrow> m
      | NotADirectoryError m \<Rightarrow> m
      | AttributeError \<Rightarrow>
          [CHR 0x27] @ ''NoneType'' @ [CHR 0x27] @ '' object has no attribute ''
            @ [CHR 0x27] @ ''group'' @ [CHR 0x27]
      | IndexError \<Rightarrow> ''list index out of range''
      | KeyError k \<Rightarrow> py_repr k
      | StopIteration \<Rightarrow> []
      | UnparsableLogError \<Rightarrow> []
      | OtherException m \<Rightarrow> m)"

section \<open>The chunk parser: classifying the lines of one chunk\<close>

text \<open>
  A record maps field names to scalar values. A parser plug-in has a short name and a
  \<open>parse\<close> operation that returns a record or raises; \<open>UnparsableLogError\<close> is the
  designated signal for a line it does not recognise.
\<close>

type_synonym log_record = "(string \<times> string) list"

record log_parser =
  short_name :: string
  parse :: "string \<Rightarrow> error + log_record"

text \<open>
  The working state of \<open>_parse_file_chunk\<close>: the dictionaries \<open>records_dict\<close> and
  \<open>keys_dict\<close> (association lists in insertion order, as Python dictionaries are) and the
  list \<open>unparsed_logs\<close>. A Python set of strings is kept as a duplicate-free list.
\<close>

record chunk_result =
  records_dict :: "(string \<times> log_record list) list"
  keys_dict :: "(string \<times> string list) list"
  unparsed_logs :: "string list"

definition set_update :: "string list \<Rightarrow> string list \<Rightarrow> string list" where
  \<comment> \<open>\<open>s.update(xs)\<close> on a set\<close>
  "set_update s xs = remdups (s @ xs)"

definition make_parsers :: "log_parser list \<Rightarrow> (string \<times> log_parser) list" where
  \<comment> \<open>\<open>{p.short_name: p() for p in self.log_parsers}\<close>: a later parser with the name of an
      earlier one takes its place in the dictionary\<close>
  "make_parsers parser_list = foldl (\<lambda>d p. AList.update (short_name p) p d) [] parser_list"

definition init_result :: "(string \<times> log_parser) list \<Rightarrow> chunk_result" where
  "init_result parsers =
     \<lparr>records_dict = map (\<lambda>(k, _). (k, [])) parsers,
      keys_dict = map (\<lambda>(k, _). (k, [])) parsers,
      unparsed_logs = []\<rparr>"

fun try_parsers ::
  "(string \<times> log_parser) list \<Rightarrow> string \<Rightarrow> chunk_result \<Rightarrow> error + chunk_result" where
  "try_parsers [] log_entry st =
     Inr (st\<lparr>unparsed_logs := unparsed_logs st @ [strip log_entry]\<rparr>)"
| "try_parsers ((parser_name, parser) # rest) log_entry st =
     (case parse parser log_entry of
        Inr rec \<Rightarrow>
          Inr (st\<lparr>records_dict := AList.map_entry parser_name (\<lambda>rs. rs @ [rec]) (records_dict st),
                  keys_dict := AList.map_entry parser_name (\<lambda>ks. set_update ks (map fst rec))
                                 (keys_dict st)\<rparr>)
      | Inl e \<Rightarrow> if e = UnparsableLogError then try_parsers rest log_entry st else Inl e)"

fun parse_entries ::
  "(string \<times> log_parser) list \<Rightarrow> string list \<Rightarrow> chunk_result \<Rightarrow> error + chunk_result" where
  "parse_entries parsers [] st = Inr st"
| "parse_entries parsers (log_entry # entries) st =
     (case try_parsers parsers log_entry st of
        Inl e \<Rightarrow> Inl e
      | Inr st' \<Rightarrow> parse_entries parsers entries st')"

definition parse_chunk_lines :: "log_parser list \<Rightarrow> string list \<Rightarrow> error + chunk_result" where
  \<comment> \<open>lines 172 to 192 of \<open>_parse_file_chunk\<close>, on the lines the chunk file yields\<close>
  "parse_chunk_lines parser_list entries =
     (let parsers = make_parsers parser_list
      in parse_entries parsers entries (init_result parsers))"

subsection \<open>Vocabulary for the outcome of a line\<close>

text \<open>
  A parser claims a line when its \<open>parse\<close> does not signal the unparsable condition.
  \<open>claimant\<close> is the first parser, in the configured order, that claims the line;
  \<open>records_of\<close> lists, in the order of the lines, the records of the lines whose claimant
  has the given short name. \<open>first_claimant\<close> and \<open>claimed_records\<close> say the same over
  the dictionary that \<open>_parse_file_chunk\<close> iterates.
\<close>

definition claims :: "log_parser \<Rightarrow> string \<Rightarrow> bool" where
  "claims p l = (parse p l \<noteq> Inl UnparsableLogError)"

definition claimant :: "log_parser list \<Rightarrow> string \<Rightarrow> log_parser option" where
  "claimant parser_list l = find (\<lambda>p. claims p l) parser_list"

definition records_of :: "log_parser list \<Rightarrow> string \<Rightarrow> string list \<Rightarrow> log_record list" where
  "records_of parser_list n entries =
     concat (map (\<lambda>l. case claimant parser_list l of
                         None \<Rightarrow> []
                       | Some p \<Rightarrow> (case parse p l of
                                     Inr r \<Rightarrow> if short_name p = n then [r] else []
                                   | Inl _ \<Rightarrow> []))
                 entries)"

definition first_claimant :: "(string \<times> log_parser) list \<Rightarrow> string \<Rightarrow> (string \<times> log_parser) option" where
  "first_claimant parsers l = find (\<lambda>np. claims (snd np) l) parsers"

definition claimed_records :: "(string \<times> log_parser) list \<Rightarrow> string \<Rightarrow> string list \<Rightarrow> log_record list" where
  "claimed_records parsers n entries =
     concat (map (\<lambda>l. case first_claimant parsers l of
                         None \<Rightarrow> []
                       | Some (m, p) \<Rightarrow> (case parse p l of Inr r \<Rightarrow> if m = n then [r] else [] | Inl _ \<Rightarrow> []))
                 entries)"

definition total_records :: "chunk_result \<Rightarrow> nat" where
  "total_records st = sum_list (map (\<lambda>nr. length (snd nr)) (records_dict st))"


section \<open>Paths (\<open>posixpath\<close>)\<close>

definition slash :: char where
  "slash = CHR ''/''"

definition dot :: char where
  "dot = CHR ''.''"

definition os_path_split :: "string \<Rightarrow> string \<times> string" where
  \<comment> \<open>\<open>os.path.split\<close>: the tail is what follows the last slash; the head loses its
      trailing slashes unless it consists of slashes only\<close>
  "os_path_split p =
     (let tail = rev (takeWhile (\<lambda>c. c \<noteq> slash) (rev p));
          head = take (length p - length tail) p
      in (if head \<noteq> [] \<and> (\<exists>c\<in>set head. c \<noteq> slash)
          then rev (dropWhile (\<lambda>c. c = slash) (rev head)) else head, tail))"

definition os_path_splitext :: "string \<Rightarrow> string \<times> string" where
  \<comment> \<open>\<open>os.path.splitext\<close>: the extension starts at the last dot of the last component,
      unless only dots precede it there\<close>
  "os_path_splitext p =
     (let after_dot = rev (takeWhile (\<lambda>c. c \<noteq> dot) (rev p))
      in if dot \<notin> set p \<or> slash \<in> set after_dot then (p, [])
         else
           let root = take (length p - length after_dot - 1) p;
               name = rev (takeWhile (\<lambda>c. c \<noteq> slash) (rev root))
           in if \<exists>c\<in>set name. c \<noteq> dot then (root, drop (length root) p) else (p, []))"

definition os_path_join :: "string \<Rightarrow> string \<Rightarrow> string" where
  \<comment> \<open>\<open>os.path.join(a, b)\<close>\<close>
  "os_path_join a b =
     (if b \<noteq> [] \<and> hd b = slash then b
      else if a = [] \<or> last a = slash then a @ b
      else a @ [slash] @ b)"

definition split_file_path :: "string \<Rightarrow> string \<times> string \<times> string" where
  "split_file_path file_path =
     (let (file_dir, file_name) = os_path_split file_path;
          (file_name_base, file_name_ext) = os_path_splitext file_name
      in (file_dir, file_name_base, file_name_ext))"

section \<open>Chunk names and their order\<close>

text \<open>
  The regular expressions of the source, each as the function that \<open>re.match\<close> computes
  with it. In Python \<open>.\<close> matches any character but the newline, and \<open>$\<close> matches at the
  end of the string and also just before a newline that ends the string.
\<close>

definition at_end :: "string \<Rightarrow> bool" where
  \<comment> \<open>the anchor \<open>$\<close>, seen from what is left of the string\<close>
  "at_end s = (s = [] \<or> s = [newline])"

definition match_chunk_mask :: "string \<Rightarrow> string option" where
  \<comment> \<open>\<open>FILE_CHUNK_SORT_MASK.match(file_name)\<close> for \<open>^chunk_(?P<id>\d+)(?:[.].*)?$\<close>:
      the text of the group \<open>id\<close>, or \<open>None\<close> when the name does not match\<close>
  "match_chunk_mask file_name =
     (if startswith file_name ''chunk_'' then
        (let rest = drop 6 file_name;
             ds = takeWhile is_digit rest;
             sfx = dropWhile is_digit rest
         in if ds = [] then None
            else if at_end sfx then Some ds
            else if hd sfx = dot \<and> at_end (dropWhile (\<lambda>c. c \<noteq> newline) (tl sfx)) then Some ds
            else None)
      else None)"

definition digit_value :: "char \<Rightarrow> nat" where
  "digit_value c = of_char c - 48"

definition int_of_digits :: "string \<Rightarrow> nat" where
  \<comment> \<open>\<open>int(s)\<close> on a string of decimal digits\<close>
  "int_of_digits ds = foldl (\<lambda>n c. 10 * n + digit_value c) 0 ds"

definition key :: "string \<Rightarrow> error + nat" where
  \<comment> \<open>the sort key of \<open>get_sorted_chunk_names\<close>, with its assertion\<close>
  "key file_name =
     (case match_chunk_mask file_name of
        None \<Rightarrow> Inl (AssertionError
                 (''File name `'' @ file_name @ ''` does not match the sort key file mask.''))
      | Some ds \<Rightarrow> Inr (int_of_digits ds))"

text \<open>
  The masks the pipeline passes to \<open>get_sorted_chunk_names\<close>: the default \<open>.*\<close>, and
  \<open>^.*{ext}$\<close> with \<open>ext\<close> one of \<open>.keys\<close> and \<open>.records\<close>. The dot of the extension is
  not escaped, so it stands for any one character but the newline.
\<close>

datatype mask = AnyName | WithExt string

definition keys_ext :: string where
  "keys_ext = ''.keys''"

definition records_ext :: string where
  "records_ext = ''.records''"

definition unparsed_short_name :: string where
  "unparsed_short_name = ''na''"

definition re_match :: "mask \<Rightarrow> string \<Rightarrow> bool" where
  \<comment> \<open>\<open>re.match(mask, f)\<close> is not \<open>None\<close>\<close>
  "re_match m f =
     (case m of
        AnyName \<Rightarrow> True
      | WithExt ext \<Rightarrow>
          (let g = (if f \<noteq> [] \<and> last f = newline then butlast f else f);
               word = tl ext
           in newline \<notin> set g \<and> length word < length g
              \<and> drop (length g - length word) g = word))"

fun keys_of :: "string list \<Rightarrow> error + (nat \<times> string) list" where
  \<comment> \<open>\<open>sorted\<close> computes the key of every name, in the order of the list, before it sorts\<close>
  "keys_of [] = Inr []"
| "keys_of (f # fs) =
     (case key f of
        Inl e \<Rightarrow> Inl e
      | Inr k \<Rightarrow> (case keys_of fs of Inl e \<Rightarrow> Inl e | Inr ks \<Rightarrow> Inr ((k, f) # ks)))"

definition sorted_chunk_names :: "string list \<Rightarrow> mask \<Rightarrow> error + string list" where
  \<comment> \<open>lines 401 to 411 of \<open>get_sorted_chunk_names\<close>, on the result of \<open>os.listdir\<close>;
      \<open>sorted\<close> is stable, as \<open>sort_key\<close> is\<close>
  "sorted_chunk_names listing m =
     (let chunk_names = filter (re_match m) listing
      in case keys_of chunk_names of
           Inl e \<Rightarrow> Inl e
         | Inr ks \<Rightarrow> Inr (map snd (sort_key fst ks)))"

definition id_of_name :: "string \<Rightarrow> nat" where
  \<comment> \<open>the integer a chunk name is sorted by; 0 for a name that the assertion rejects\<close>
  "id_of_name f = (case match_chunk_mask f of None \<Rightarrow> 0 | Some ds \<Rightarrow> int_of_digits ds)"

definition match_split_id :: "string \<Rightarrow> string option" where
  \<comment> \<open>\<open>re.match(r'^.*_(?P<id>\d+)$', name)\<close> in \<open>rename_chunk\<close>: the text of the group
      \<open>id\<close>, or \<open>None\<close> when the name does not match\<close>
  "match_split_id name =
     (let g = (if name \<noteq> [] \<and> last name = newline then butlast name else name);
          ds = rev (takeWhile is_digit (rev g));
          pre = take (length g - length ds) g
      in if ds \<noteq> [] \<and> pre \<noteq> [] \<and> last pre = CHR ''_'' \<and> newline \<notin> set pre
         then Some ds else None)"

section \<open>Text files\<close>

text \<open>
  A file holds text in a single-byte encoding, so its size in bytes is the length of its
  text. Reading in text mode translates the line ends \<open>\r\n\<close> and \<open>\r\<close> to \<open>\n\<close>;
  writing on POSIX leaves \<open>\n\<close> as it is.
\<close>

definition carriage_return :: char where
  "carriage_return = CHR 0x0D"

fun universal_newlines :: "string \<Rightarrow> string" where
  "universal_newlines [] = []"
| "universal_newlines [c] = [if c = carriage_return then newline else c]"
| "universal_newlines (c # d # s) =
     (if c = carriage_return \<and> d = newline then newline # universal_newlines s
      else if c = carriage_return then newline # universal_newlines (d # s)
      else c # universal_newlines (d # s))"

fun lines_from :: "string \<Rightarrow> string \<Rightarrow> string list" where
  \<comment> \<open>the lines of a text, each with its line end; the first argument is the line begun\<close>
  "lines_from cur [] = (if cur = [] then [] else [cur])"
| "lines_from cur (c # s) =
     (if c = newline then (cur @ [c]) # lines_from [] s else lines_from (cur @ [c]) s)"

definition readlines :: "string \<Rightarrow> string list" where
  \<comment> \<open>what iterating over a file opened for reading yields, from the text of the file\<close>
  "readlines text = lines_from [] (universal_newlines text)"

fun split_from :: "char \<Rightarrow> string \<Rightarrow> string \<Rightarrow> string list" where
  "split_from sep cur [] = [cur]"
| "split_from sep cur (c # s) =
     (if c = sep then cur # split_from sep [] s else split_from sep (cur @ [c]) s)"

definition split_on :: "char \<Rightarrow> string \<Rightarrow> string list" where
  \<comment> \<open>\<open>s.split(sep)\<close> for a separator of one character\<close>
  "split_on sep s = split_from sep [] s"

definition split_newline :: "string \<Rightarrow> string list" where
  \<comment> \<open>\<open>s.split('\n')\<close>\<close>
  "split_newline s = split_on newline s"

section \<open>The world: file system and log\<close>

text \<open>
  The file system is a list of directories and an association list from the paths of the
  regular files to their texts. A path is the string the program builds; two spellings
  of one path are two paths here. The log is the list of the messages emitted so far.
\<close>

datatype level = DEBUG | INFO | CRITICAL

record world =
  dirs :: "string list"
  files :: "(string \<times> string) list"
  log :: "(level \<times> string) list"

text \<open>
  What the platform and the libraries outside the repository decide: the order in which
  \<open>os.listdir\<close> lists a directory and in which a set of strings is iterated (both
  arbitrary in Python), the clock, the printed form of a record with its inverse \<open>eval\<close>,
  the texts into which \<open>Filesplit.split\<close> cuts a text for a given size, with the text
  of its manifest, and the size that the file system reports for a directory.
\<close>

record runtime =
  listdir_order :: "string list \<Rightarrow> string list"
  set_order :: "string list \<Rightarrow> string list"
  now :: string
  time_string :: string
  str_record :: "log_record \<Rightarrow> string"
  eval_record :: "string \<Rightarrow> error + log_record"
  filesplit :: "string \<Rightarrow> int \<Rightarrow> error + (string list \<times> string)"
  dir_size :: int

definition runtime_ok :: "runtime \<Rightarrow> bool" where
  \<comment> \<open>listing a directory and iterating a set only choose an order\<close>
  "runtime_ok rt =
     ((\<forall>xs. mset (listdir_order rt xs) = mset xs) \<and> (\<forall>xs. mset (set_order rt xs) = mset xs))"

subsection \<open>Computations that may raise and change the world\<close>

type_synonym 'a io = "world \<Rightarrow> (error + 'a) \<times> world"

definition io_return :: "'a \<Rightarrow> 'a io" where
  "io_return x = (\<lambda>w. (Inr x, w))"

definition io_raise :: "error \<Rightarrow> 'a io" where
  "io_raise e = (\<lambda>w. (Inl e, w))"

definition io_bind :: "'a io \<Rightarrow> ('a \<Rightarrow> 'b io) \<Rightarrow> 'b io" where
  "io_bind m f = (\<lambda>w. case m w of (Inl e, w') \<Rightarrow> (Inl e, w') | (Inr x, w') \<Rightarrow> f x w')"

definition io_then :: "unit io \<Rightarrow> 'b io \<Rightarrow> 'b io" where
  "io_then m k = io_bind m (\<lambda>_. k)"

definition io_read :: "(world \<Rightarrow> error + 'a) \<Rightarrow> 'a io" where
  \<comment> \<open>an operation that only reads the world\<close>
  "io_read g = (\<lambda>w. (g w, w))"

fun for_each :: "'a list \<Rightarrow> ('a \<Rightarrow> unit io) \<Rightarrow> unit io" where
  "for_each [] body = io_return ()"
| "for_each (x # xs) body = io_then (body x) (for_each xs body)"

fun io_map :: "('a \<Rightarrow> 'b io) \<Rightarrow> 'a list \<Rightarrow> 'b list io" where
  "io_map f [] = io_return []"
| "io_map f (x # xs) = io_bind (f x) (\<lambda>y. io_bind (io_map f xs) (\<lambda>ys. io_return (y # ys)))"

definition log_msg :: "level \<Rightarrow> string \<Rightarrow> unit io" where
  "log_msg lvl msg = (\<lambda>w. (Inr (), w\<lparr>log := log w @ [(lvl, msg)]\<rparr>))"

subsection \<open>The operations of \<open>os\<close>, \<open>shutil\<close> and \<open>open\<close>\<close>

text \<open>
  Paths are compared as strings. The program builds every path below its arguments with
  \<open>os.path.join\<close> from a directory and a name, so a path has one spelling in a run; a
  second spelling of a path of the world (a doubled slash, a component \<open>.\<close> or \<open>..\<close>, a
  link) is another path here. The root and the current directory always exist. An
  operation that fails raises the \<open>OSError\<close> of the platform, with its text.
\<close>

definition is_root :: "string \<Rightarrow> bool" where
  "is_root d = (d \<noteq> [] \<and> (\<forall>c\<in>set d. c = slash))"

definition os_path_isdir :: "world \<Rightarrow> string \<Rightarrow> bool" where
  "os_path_isdir w p = (is_root p \<or> p \<in> set (dirs w))"

definition os_path_isfile :: "world \<Rightarrow> string \<Rightarrow> bool" where
  "os_path_isfile w p = (p \<in> fst ` set (files w))"

definition os_path_exists :: "world \<Rightarrow> string \<Rightarrow> bool" where
  "os_path_exists w p = (os_path_isdir w p \<or> os_path_isfile w p)"

definition child_name :: "string \<Rightarrow> string \<Rightarrow> string option" where
  \<comment> \<open>the name under which path \<open>p\<close> is an entry of directory \<open>d\<close>, if it is one\<close>
  "child_name d p =
     (let n = snd (os_path_split p)
      in if n \<noteq> [] \<and> os_path_join d n = p then Some n else None)"

definition dir_entries :: "world \<Rightarrow> string \<Rightarrow> string list" where
  "dir_entries w d = List.map_filter (child_name d) (remdups (dirs w @ map fst (files w)))"

definition ancestors :: "string \<Rightarrow> string list" where
  \<comment> \<open>the paths above a path: its prefixes that end before a slash\<close>
  "ancestors p =
     filter (\<lambda>q. q \<noteq> [] \<and> last q \<noteq> slash)
       (map (\<lambda>i. take i p) (filter (\<lambda>i. p ! i = slash) [0..<length p]))"

definition under_file :: "world \<Rightarrow> string \<Rightarrow> bool" where
  \<comment> \<open>a path above \<open>p\<close> is a regular file\<close>
  "under_file w p = (\<exists>q\<in>set (ancestors p). os_path_isfile w q)"

definition rstrip_slashes :: "string \<Rightarrow> string" where
  "rstrip_slashes p = (if is_root p then p else rev (dropWhile (\<lambda>c. c = slash) (rev p)))"

definition parent_exists :: "world \<Rightarrow> string \<Rightarrow> bool" where
  \<comment> \<open>the directory that holds \<open>p\<close> exists\<close>
  "parent_exists w p = (let d = fst (os_path_split p) in d = [] \<or> os_path_isdir w d)"

definition missing_error :: "world \<Rightarrow> string \<Rightarrow> string \<Rightarrow> error" where
  \<comment> \<open>the error of an operation on the path \<open>p\<close>, at which there is nothing; \<open>shown\<close> is
      the text of the paths in the message\<close>
  "missing_error w p shown =
     (if under_file w p
      then NotADirectoryError (''[Errno 20] Not a directory: '' @ shown)
      else FileNotFoundError (''[Errno 2] No such file or directory: '' @ shown))"

definition create_error :: "world \<Rightarrow> string \<Rightarrow> string \<Rightarrow> error option" where
  \<comment> \<open>what stands against a new entry at the path \<open>p\<close>, which has no trailing slash\<close>
  "create_error w p shown =
     (if p = [] \<or> under_file w p \<or> \<not> parent_exists w p then Some (missing_error w p shown)
      else None)"

definition os_listdir :: "runtime \<Rightarrow> string \<Rightarrow> world \<Rightarrow> error + string list" where
  "os_listdir rt d w =
     (if os_path_isdir w d then Inr (listdir_order rt (dir_entries w d))
      else if os_path_isfile w d then Inl (enotdir d)
      else Inl (missing_error w d (py_repr d)))"

definition os_mkdir :: "string \<Rightarrow> unit io" where
  \<comment> \<open>\<open>os.mkdir(name)\<close>; the directory is entered without the trailing slashes of the name\<close>
  "os_mkdir name =
     (\<lambda>w. let p = rstrip_slashes name
           in if name \<noteq> [] \<and> (os_path_exists w p \<or> os_path_exists w name) then (Inl (eexist name), w)
              else case create_error w p (py_repr name) of
                     Some e \<Rightarrow> (Inl e, w)
                   | None \<Rightarrow> (Inr (), w\<lparr>dirs := dirs w @ [p]\<rparr>))"

definition makedirs_split :: "string \<Rightarrow> string \<times> string" where
  \<comment> \<open>the first three lines of \<open>os.makedirs\<close>: \<open>head\<close> and \<open>tail\<close>\<close>
  "makedirs_split name =
     (let (head, tail) = os_path_split name
      in if tail = [] then os_path_split head else (head, tail))"

definition is_FileExistsError :: "error \<Rightarrow> bool" where
  "is_FileExistsError e = (case e of FileExistsError _ \<Rightarrow> True | _ \<Rightarrow> False)"

definition mkdir_leaf :: "string \<Rightarrow> bool \<Rightarrow> unit io" where
  \<comment> \<open>the last five lines of \<open>os.makedirs\<close>: \<open>mkdir\<close>, whose error is dropped when
      \<open>exist_ok\<close> is set and the name is a directory\<close>
  "mkdir_leaf name exist_ok =
     (\<lambda>w. case os_mkdir name w of
             (Inl e, w') \<Rightarrow>
               if \<not> exist_ok \<or> \<not> os_path_isdir w' name then (Inl e, w') else (Inr (), w')
           | (Inr u, w') \<Rightarrow> (Inr u, w'))"

function os_makedirs :: "string \<Rightarrow> bool \<Rightarrow> unit io" where
  \<comment> \<open>\<open>os.makedirs(name, exist_ok=exist_ok)\<close>: the missing directories above the name are
      made first, by the same function; a \<open>FileExistsError\<close> from there is passed over\<close>
  "os_makedirs name exist_ok w =
     (let head = fst (makedirs_split name); tail = snd (makedirs_split name)
      in if head \<noteq> [] \<and> tail \<noteq> [] \<and> \<not> os_path_exists w head then
           (case os_makedirs head exist_ok w of
              (Inl e, w') \<Rightarrow>
                if is_FileExistsError e
                then (if tail = ''.'' then (Inr (), w') else mkdir_leaf name exist_ok w')
                else (Inl e, w')
            | (Inr _, w') \<Rightarrow>
                if tail = ''.'' then (Inr (), w') else mkdir_leaf name exist_ok w')
         else mkdir_leaf name exist_ok w)"
  by pat_completeness auto
termination
proof (relation "measure (\<lambda>(name, exist_ok, w). length name)")
  show "wf (measure (\<lambda>(name, exist_ok, w). length name))"
    by simp
next
  fix name :: string and exist_ok :: bool and w :: world and head tail
  assume h: "head = fst (makedirs_split name)" and t: "tail = snd (makedirs_split name)"
    and c: "head \<noteq> [] \<and> tail \<noteq> [] \<and> \<not> os_path_exists w head"
  have split_le: "length (fst (os_path_split q)) + length (snd (os_path_split q)) \<le> length q"
    for q
  proof -
    let ?t = "rev (takeWhile (\<lambda>c. c \<noteq> slash) (rev q))"
    let ?h = "take (length q - length ?t) q"
    have "length ?t \<le> length q"
      using length_takeWhile_le [of "\<lambda>c. c \<noteq> slash" "rev q"] by simp
    moreover have "length (rev (dropWhile (\<lambda>c. c = slash) (rev ?h))) \<le> length ?h"
      using length_dropWhile_le [of "\<lambda>c. c = slash" "rev ?h"] by simp
    ultimately show ?thesis
      by (auto simp: os_path_split_def Let_def)
  qed
  have "length head + length tail \<le> length name"
  proof (cases "snd (os_path_split name) = []")
    case True
    then have "makedirs_split name = os_path_split (fst (os_path_split name))"
      by (simp add: makedirs_split_def case_prod_beta)
    then show ?thesis
      using split_le [of "fst (os_path_split name)"] split_le [of name] h t by simp
  next
    case False
    then have "makedirs_split name = os_path_split name"
      by (simp add: makedirs_split_def case_prod_beta)
    then show ?thesis
      using split_le [of name] h t by simp
  qed
  then show "((head, exist_ok, w), (name, exist_ok, w)) \<in> measure (\<lambda>(name, exist_ok, w). length name)"
    using c by (cases tail) auto
qed

declare os_makedirs.simps [simp del]

definition no_missing_parent :: "world \<Rightarrow> string \<Rightarrow> bool" where
  \<comment> \<open>\<open>os.makedirs(name)\<close> has no directory to make above the name: the test of its
      fourth line fails\<close>
  "no_missing_parent w name =
     (fst (makedirs_split name) = [] \<or> snd (makedirs_split name) = []
      \<or> os_path_exists w (fst (makedirs_split name)))"

definition open_write :: "string \<Rightarrow> world \<Rightarrow> error option" where
  \<comment> \<open>what \<open>open(p, mode)\<close> raises for a mode that creates the file (\<open>w\<close>, \<open>w+\<close>, \<open>a+\<close>)\<close>
  "open_write p w =
     (if os_path_isfile w p then None
      else case create_error w (rstrip_slashes p) (py_repr p) of
             Some e \<Rightarrow> Some e
           | None \<Rightarrow> if os_path_isdir w p \<or> last p = slash then Some (eisdir p) else None)"


definition put_file :: "string \<Rightarrow> string \<Rightarrow> unit io" where
  \<comment> \<open>create the file, or replace its text\<close>
  "put_file p text =
     (\<lambda>w. case open_write p w of
             Some e \<Rightarrow> (Inl e, w)
           | None \<Rightarrow> (Inr (), w\<lparr>files := AList.update p text (files w)\<rparr>))"

definition read_bytes :: "string \<Rightarrow> world \<Rightarrow> error + string" where
  "read_bytes p w =
     (case map_of (files w) p of
        Some text \<Rightarrow> Inr text
      | None \<Rightarrow> if os_path_isdir w p then Inl (eisdir p) else Inl (missing_error w p (py_repr p)))"

definition read_text :: "string \<Rightarrow> world \<Rightarrow> error + string" where
  \<comment> \<open>\<open>open(p).read()\<close>\<close>
  "read_text p w = (case read_bytes p w of Inl e \<Rightarrow> Inl e | Inr text \<Rightarrow> Inr (universal_newlines text))"

definition read_lines :: "string \<Rightarrow> world \<Rightarrow> error + string list" where
  \<comment> \<open>\<open>open(p).readlines()\<close>, and what iterating over \<open>open(p)\<close> yields\<close>
  "read_lines p w = (case read_bytes p w of Inl e \<Rightarrow> Inl e | Inr text \<Rightarrow> Inr (readlines text))"

definition write_lines :: "string \<Rightarrow> string list \<Rightarrow> unit io" where
  \<comment> \<open>\<open>open(p, mode='w+')\<close>, then the writes, in order\<close>
  "write_lines p ls = put_file p (concat ls)"

definition open_append :: "string \<Rightarrow> unit io" where
  \<comment> \<open>\<open>open(p, mode='a+')\<close> creates the file when it is missing\<close>
  "open_append p =
     (\<lambda>w. case map_of (files w) p of Some _ \<Rightarrow> (Inr (), w) | None \<Rightarrow> put_file p [] w)"

definition append_lines :: "string \<Rightarrow> string list \<Rightarrow> unit io" where
  \<comment> \<open>\<open>writelines\<close> on a file opened with \<open>open_append\<close>\<close>
  "append_lines p ls =
     (\<lambda>w. case map_of (files w) p of
             Some text \<Rightarrow> (Inr (), w\<lparr>files := AList.update p (text @ concat ls) (files w)\<rparr>)
           | None \<Rightarrow> (Inl (missing_error w p (py_repr p)), w))"

definition os_path_getsize :: "runtime \<Rightarrow> string \<Rightarrow> world \<Rightarrow> error + int" where
  "os_path_getsize rt p w =
     (case map_of (files w) p of
        Some text \<Rightarrow> Inr (int (length text))
      | None \<Rightarrow> if os_path_isdir w p then Inr (dir_size rt)
                else Inl (missing_error w p (py_repr p)))"

definition shutil_copy :: "string \<Rightarrow> string \<Rightarrow> unit io" where
  \<comment> \<open>\<open>shutil.copy(src, dst)\<close>: into the directory \<open>dst\<close> if it is one; the source is
      opened before the destination\<close>
  "shutil_copy src dst =
     (\<lambda>w. let target = (if os_path_isdir w dst
                         then os_path_join dst (snd (os_path_split src)) else dst)
           in if os_path_exists w src \<and> src = target
              then (Inl (OtherException
                           (py_repr src @ '' and '' @ py_repr target @ '' are the same file'')), w)
              else io_bind (io_read (read_bytes src)) (\<lambda>text. put_file target text) w)"

definition os_remove :: "string \<Rightarrow> unit io" where
  "os_remove p =
     (\<lambda>w. if os_path_isfile w p then (Inr (), w\<lparr>files := AList.delete p (files w)\<rparr>)
           else if os_path_isdir w p then (Inl (eisdir p), w)
           else (Inl (missing_error w p (py_repr p)), w))"

definition os_rename :: "string \<Rightarrow> string \<Rightarrow> unit io" where
  \<comment> \<open>\<open>os.rename\<close> of a regular file, which is what the program renames; on POSIX a
      file at the new path is replaced\<close>
  "os_rename src dst =
     (\<lambda>w. let shown = py_repr src @ '' -> '' @ py_repr dst
           in case map_of (files w) src of
                None \<Rightarrow> (Inl (missing_error w src shown), w)
              | Some text \<Rightarrow>
                  if src = dst then (Inr (), w)
                  else if os_path_isdir w dst
                  then (Inl (IsADirectoryError (''[Errno 21] Is a directory: '' @ shown)), w)
                  else (case create_error w dst shown of
                          Some e \<Rightarrow> (Inl e, w)
                        | None \<Rightarrow>
                            (Inr (), w\<lparr>files := AList.delete src
                                                  (AList.update dst text (files w))\<rparr>)))"

definition under :: "string \<Rightarrow> string \<Rightarrow> bool" where
  \<comment> \<open>path \<open>p\<close> is directory \<open>d\<close> or lies below it\<close>
  "under d p = (p = d \<or> startswith p (if d \<noteq> [] \<and> last d = slash then d else d @ [slash]))"

definition shutil_rmtree :: "string \<Rightarrow> unit io" where
  "shutil_rmtree d =
     (\<lambda>w. if d \<in> set (dirs w) then
             (Inr (), w\<lparr>dirs := filter (\<lambda>p. \<not> under d p) (dirs w),
                        files := filter (\<lambda>(p, _). \<not> under d p) (files w)\<rparr>)
           else if os_path_isfile w d then (Inl (enotdir d), w)
           else (Inl (missing_error w d (py_repr d)), w))"

function str_nat :: "nat \<Rightarrow> string" where
  \<comment> \<open>\<open>str(n)\<close> for a natural number\<close>
  "str_nat n = (if n < 10 then [char_of (48 + n)] else str_nat (n div 10) @ [char_of (48 + n mod 10)])"
  by pat_completeness auto
termination
  by (relation "measure id") auto

section \<open>The file parser\<close>

text \<open>
  The fields of a \<open>FileParser\<close> that the pipeline reads. \<open>export_df\<close> is the export
  function handed to the constructor, as the text it writes for a table; a table is a
  list of column names with the records appended to it.
\<close>

type_synonym table = "string list \<times> log_record list"

record file_parser =
  log_parsers :: "log_parser list"
  chunk_byte_size :: int
  delete_intermediate_result_dirs :: bool
  export_df :: "table \<Rightarrow> error + string"

subsection \<open>Staging directories\<close>

definition create_temp_directory :: "string \<Rightarrow> bool \<Rightarrow> unit io" where
  \<comment> \<open>the exception of line 383 is built and dropped: there is no \<open>raise\<close>\<close>
  "create_temp_directory dir_path exist_ok =
     (\<lambda>w. if os_path_exists w dir_path then
             (if \<not> exist_ok then
                (let unraised = FileExistsError
                       (''Cannot create a directory when that directory already exists: `''
                          @ dir_path @ ''`'')
                 in (Inr (), w))
              else (Inr (), w))
           else io_then (log_msg DEBUG (''Creating directory: '' @ dir_path))
                  (os_makedirs dir_path exist_ok) w)"

definition remove_temp_directory :: "file_parser \<Rightarrow> string \<Rightarrow> unit io" where
  "remove_temp_directory self dir_path =
     (if delete_intermediate_result_dirs self
      then io_then (log_msg DEBUG (''Removing directory: '' @ dir_path)) (shutil_rmtree dir_path)
      else io_return ())"

definition get_sorted_chunk_names :: "runtime \<Rightarrow> string \<Rightarrow> mask \<Rightarrow> world \<Rightarrow> error + string list" where
  "get_sorted_chunk_names rt src_dir_path m w =
     (case os_listdir rt src_dir_path w of
        Inl e \<Rightarrow> Inl e
      | Inr listing \<Rightarrow> sorted_chunk_names listing m)"

subsection \<open>Stage 1: the splitter\<close>

definition manifest_name :: string where
  "manifest_name = ''fs_manifest.csv''"

definition filesplit_split :: "runtime \<Rightarrow> string \<Rightarrow> int \<Rightarrow> string \<Rightarrow> string list io" where
  \<comment> \<open>\<open>Filesplit().split(file, split_size, output_dir, callback, newline=True)\<close> with the
      callback of line 134: the library writes the split files \<open>name_1.ext\<close>,
      \<open>name_2.ext\<close>, ... into the output directory, calls the callback on each path, and
      writes its manifest there. The result is the list the callback builds.\<close>
  "filesplit_split rt file split_size output_dir =
     io_bind (io_read (read_bytes file))
       (\<lambda>text. case filesplit rt text split_size of
                  Inl e \<Rightarrow> io_raise e
                | Inr (parts, manifest) \<Rightarrow>
                    (let (_, name, ext) = split_file_path file
                     in io_bind
                          (io_map (\<lambda>(i, part).
                               (let path = os_path_join output_dir (name @ ''_'' @ str_nat i @ ext)
                                in io_then (put_file path part)
                                     (io_then (log_msg DEBUG (''Creating file: '' @ path))
                                        (io_return path))))
                             (List.enumerate 1 parts))
                          (\<lambda>chunk_file_paths.
                             io_then (put_file (os_path_join output_dir manifest_name) manifest)
                               (io_return chunk_file_paths))))"

definition rename_chunk :: "string \<Rightarrow> string io" where
  "rename_chunk chunk_path =
     (let (directory, name, extension) = split_file_path chunk_path
      in case match_split_id name of
           None \<Rightarrow> io_raise AttributeError
         | Some chunk_id \<Rightarrow>
             (let new_chunk_path = os_path_join directory (''chunk_'' @ chunk_id @ extension)
              in io_then (os_rename chunk_path new_chunk_path) (io_return new_chunk_path)))"

definition split_file_into_chunks :: "runtime \<Rightarrow> file_parser \<Rightarrow> string \<Rightarrow> string \<Rightarrow> unit io" where
  "split_file_into_chunks rt self src_file_path dst_dir_path =
     io_bind (io_read (os_path_getsize rt src_file_path))
       (\<lambda>src_size.
          if src_size > chunk_byte_size self then
            io_bind (filesplit_split rt src_file_path (chunk_byte_size self) dst_dir_path)
              (\<lambda>chunk_file_paths.
                 io_bind (io_map rename_chunk chunk_file_paths)
                   (\<lambda>renamed.
                      (let manifest_file_path = os_path_join dst_dir_path manifest_name
                       in (\<lambda>w. if os_path_exists w manifest_file_path
                                then os_remove manifest_file_path w else (Inr (), w)))))
          else
            (let (_, _, extension) = split_file_path src_file_path;
                 dst_file_path = os_path_join dst_dir_path (''chunk_1'' @ extension)
             in shutil_copy src_file_path dst_file_path))"

subsection \<open>Stage 2: the chunk parser\<close>

definition persist_parsed_data ::
  "runtime \<Rightarrow> string \<Rightarrow> string \<Rightarrow> (string \<times> log_record list) list
     \<Rightarrow> (string \<times> string list) list \<Rightarrow> unit io" where
  "persist_parsed_data rt src_file_name dst_dir_path recs kys =
     io_then
       (for_each (map fst recs)
          (\<lambda>parser_name. create_temp_directory (os_path_join dst_dir_path parser_name) True))
       (io_then
          (for_each recs
             (\<lambda>(parser_name, records).
                (let records_file_name = src_file_name @ ''.'' @ parser_name @ records_ext;
                     records_file_path =
                       os_path_join (os_path_join dst_dir_path parser_name) records_file_name
                 in io_then (log_msg DEBUG (''Creating file: '' @ records_file_path))
                      (write_lines records_file_path
                         (map (\<lambda>r. str_record rt r @ [newline]) records)))))
          (for_each kys
             (\<lambda>(parser_name, ks).
                (let keys_file_name = src_file_name @ ''.'' @ parser_name @ keys_ext;
                     keys_file_path =
                       os_path_join (os_path_join dst_dir_path parser_name) keys_file_name
                 in io_then (log_msg DEBUG (''Creating file: '' @ keys_file_path))
                      (write_lines keys_file_path
                         (map (\<lambda>k. k @ [newline]) (set_order rt ks)))))))"

definition persist_unparsed_logs :: "string \<Rightarrow> string \<Rightarrow> string \<Rightarrow> string list \<Rightarrow> unit io" where
  "persist_unparsed_logs src_file_name dst_dir_path file_ext unparsed =
     io_then (create_temp_directory (os_path_join dst_dir_path unparsed_short_name) True)
       (let unparsed_file_name = src_file_name @ ''.'' @ unparsed_short_name @ file_ext;
            unparsed_file_path =
              os_path_join (os_path_join dst_dir_path unparsed_short_name) unparsed_file_name
        in io_then (put_file unparsed_file_path [])
             (io_then (log_msg DEBUG (''Creating file: '' @ unparsed_file_path))
                (write_lines unparsed_file_path (map (\<lambda>l. l @ [newline]) unparsed))))"

definition parse_file_chunk :: "runtime \<Rightarrow> file_parser \<Rightarrow> string \<Rightarrow> string \<Rightarrow> unit io" where
  "parse_file_chunk rt self src_file_path dst_dir_path =
     (let (_, src_file_name, src_file_ext) = split_file_path src_file_path
      in io_bind (io_read (read_lines src_file_path))
           (\<lambda>lines. case parse_chunk_lines (log_parsers self) lines of
                       Inl e \<Rightarrow> io_raise e
                     | Inr res \<Rightarrow>
                         io_then
                           (persist_parsed_data rt src_file_name dst_dir_path
                              (records_dict res) (keys_dict res))
                           (persist_unparsed_logs src_file_name dst_dir_path src_file_ext
                              (unparsed_logs res))))"

text \<open>
  Modelled from the spec: \<open>ParallelExecutor.execute_parallel_task\<close> is not among the
  sources. It runs the task once per parameter tuple, blocks until all are done and
  surfaces the first fault to the caller; the tasks of a stage write disjoint files, so
  they are run here one after the other, in the order of the list.
\<close>

definition execute_parallel_task :: "('a \<Rightarrow> unit io) \<Rightarrow> 'a list \<Rightarrow> unit io" where
  "execute_parallel_task task params_list = for_each params_list task"

definition parse_file_chunks :: "runtime \<Rightarrow> file_parser \<Rightarrow> string \<Rightarrow> string \<Rightarrow> unit io" where
  "parse_file_chunks rt self src_dir_path dst_dir_path =
     io_bind (io_read (get_sorted_chunk_names rt src_dir_path AnyName))
       (\<lambda>chunk_file_names.
          (let chunk_file_paths = map (os_path_join src_dir_path) chunk_file_names
           in execute_parallel_task (\<lambda>src_file_path. parse_file_chunk rt self src_file_path dst_dir_path)
                chunk_file_paths))"

subsection \<open>Stage 3: the schema unifier\<close>

fun sum_map :: "('a \<Rightarrow> error + 'b) \<Rightarrow> 'a list \<Rightarrow> error + 'b list" where
  "sum_map f [] = Inr []"
| "sum_map f (x # xs) =
     (case f x of
        Inl e \<Rightarrow> Inl e
      | Inr y \<Rightarrow> (case sum_map f xs of Inl e \<Rightarrow> Inl e | Inr ys \<Rightarrow> Inr (y # ys)))"

definition header_sort_key :: "string \<Rightarrow> string" where
  \<comment> \<open>the key of line 265\<close>
  "header_sort_key x = (if startswith x ''_'' then ''0'' @ lower x else ''1'' @ lower x)"

definition header_before :: "string \<Rightarrow> string \<Rightarrow> bool" where
  \<comment> \<open>the order of the schema in words: names that begin with an underscore first, and
      within each of the two groups the order of the names in lower case\<close>
  "header_before x y =
     (if startswith x ''_'' = startswith y ''_'' then lower x \<le> lower y else startswith x ''_'')"

definition keys_in_text :: "string \<Rightarrow> string list" where
  \<comment> \<open>\<open>filter(None, lines.split('\n'))\<close>\<close>
  "keys_in_text lines = filter (\<lambda>k. k \<noteq> []) (split_newline lines)"

definition unique_keys_of :: "string list \<Rightarrow> string list" where
  \<comment> \<open>the set \<open>unique_keys\<close> after the loop of lines 257 to 261, from the texts read\<close>
  "unique_keys_of texts = foldl (\<lambda>unique_keys lines. set_update unique_keys (keys_in_text lines)) [] texts"

definition parser_table_headers :: "runtime \<Rightarrow> string \<Rightarrow> string \<Rightarrow> world \<Rightarrow> error + string list" where
  \<comment> \<open>the body of the loop of \<open>_get_final_table_headers\<close>, for the parser of the given name\<close>
  "parser_table_headers rt src_dir_path parser_name w =
     (let parser_results_dir = os_path_join src_dir_path parser_name
      in case get_sorted_chunk_names rt parser_results_dir (WithExt keys_ext) w of
           Inl e \<Rightarrow> Inl e
         | Inr chunk_keys_file_names \<Rightarrow>
             (let chunk_keys_file_paths =
                    map (os_path_join (os_path_join src_dir_path parser_name)) chunk_keys_file_names
              in case sum_map (\<lambda>file_path. read_text file_path w) chunk_keys_file_paths of
                   Inl e \<Rightarrow> Inl e
                 | Inr texts \<Rightarrow>
                     Inr (sort_key header_sort_key (set_order rt (unique_keys_of texts)))))"

fun table_headers_loop ::
  "runtime \<Rightarrow> string \<Rightarrow> log_parser list \<Rightarrow> (string \<times> string list) list \<Rightarrow> world
     \<Rightarrow> error + (string \<times> string list) list" where
  "table_headers_loop rt src_dir_path [] headers_dict w = Inr headers_dict"
| "table_headers_loop rt src_dir_path (parser # rest) headers_dict w =
     (case parser_table_headers rt src_dir_path (short_name parser) w of
        Inl e \<Rightarrow> Inl e
      | Inr sorted_keys \<Rightarrow>
          table_headers_loop rt src_dir_path rest
            (AList.update (short_name parser) sorted_keys headers_dict) w)"

definition get_final_table_headers ::
  "runtime \<Rightarrow> file_parser \<Rightarrow> string \<Rightarrow> world \<Rightarrow> error + (string \<times> string list) list" where
  "get_final_table_headers rt self src_dir_path w =
     table_headers_loop rt src_dir_path (log_parsers self) [] w"

subsection \<open>Stage 4: the tabularizer\<close>

definition tabularize_parsed_chunk ::
  "runtime \<Rightarrow> file_parser \<Rightarrow> string \<times> string \<times> string \<times> string list \<Rightarrow> unit io" where
  "tabularize_parsed_chunk rt self =
     (\<lambda>(parser_name, src_file_path, dst_dir_path, table_headers).
        (let (src_file_dir, src_file_name, src_file_ext) = split_file_path src_file_path;
             dst_file_name = src_file_name @ ''.tsv'';
             dst_file_path = os_path_join (os_path_join dst_dir_path parser_name) dst_file_name
         in io_bind (io_read (read_lines src_file_path))
              (\<lambda>lines. case sum_map (eval_record rt) lines of
                          Inl e \<Rightarrow> io_raise e
                        | Inr records \<Rightarrow>
                            (let result_df = (table_headers, records)
                             in io_then
                                  (create_temp_directory (os_path_join dst_dir_path parser_name) True)
                                  (case export_df self result_df of
                                     Inl e \<Rightarrow> io_raise e
                                   | Inr text \<Rightarrow> put_file dst_file_path text)))))"

definition tabularize_params ::
  "runtime \<Rightarrow> string \<Rightarrow> string \<Rightarrow> (string \<times> string list) list \<Rightarrow> log_parser \<Rightarrow> world
     \<Rightarrow> error + (string \<times> string \<times> string \<times> string list) list" where
  \<comment> \<open>the parameter tuples that one parser adds to \<open>params_list\<close>\<close>
  "tabularize_params rt src_dir_path dst_dir_path records_table_headers_dict parser w =
     (let parser_name = short_name parser;
          parser_results_dir = os_path_join src_dir_path parser_name
      in case get_sorted_chunk_names rt parser_results_dir (WithExt records_ext) w of
           Inl e \<Rightarrow> Inl e
         | Inr chunk_records_file_names \<Rightarrow>
             sum_map (\<lambda>n. case map_of records_table_headers_dict parser_name of
                             None \<Rightarrow> Inl (KeyError parser_name)
                           | Some hs \<Rightarrow>
                               Inr (parser_name,
                                    os_path_join (os_path_join src_dir_path parser_name) n,
                                    dst_dir_path, hs))
               chunk_records_file_names)"

definition tabularize_parsed_chunks ::
  "runtime \<Rightarrow> file_parser \<Rightarrow> string \<Rightarrow> string \<Rightarrow> (string \<times> string list) list \<Rightarrow> unit io" where
  "tabularize_parsed_chunks rt self src_dir_path dst_dir_path records_table_headers_dict =
     io_bind
       (io_read (\<lambda>w. sum_map (\<lambda>parser. tabularize_params rt src_dir_path dst_dir_path
                                           records_table_headers_dict parser w)
                         (log_parsers self)))
       (\<lambda>params. execute_parallel_task (tabularize_parsed_chunk rt self) (concat params))"

subsection \<open>Stages 5 and 6: the merger\<close>

definition first_ext :: "string list \<Rightarrow> string io" where
  \<comment> \<open>the extension of \<open>paths[0]\<close>; indexing an empty list raises\<close>
  "first_ext paths =
     (case paths of
        [] \<Rightarrow> io_raise IndexError
      | first # _ \<Rightarrow> (let (_, _, src_file_ext) = split_file_path first in io_return src_file_ext))"

definition skip_header :: "nat \<Rightarrow> string list \<Rightarrow> string list io" where
  \<comment> \<open>lines 352 to 354: \<open>next\<close> on a file without a line raises \<open>StopIteration\<close>\<close>
  "skip_header table_idx lines =
     (if table_idx > 1
      then (case lines of [] \<Rightarrow> io_raise StopIteration | _ # rest \<Rightarrow> io_return rest)
      else io_return lines)"

definition merge_table :: "nat \<Rightarrow> nat \<Rightarrow> nat \<Rightarrow> string \<Rightarrow> nat \<times> string \<Rightarrow> unit io" where
  \<comment> \<open>lines 348 to 355, the body of the loop over the chunk tables of one parser: the
      destination is opened for appending, the table is read, without its first line
      when it is not the first table, and its lines are appended\<close>
  "merge_table parser_no n_parsers n_tables dst_file_path =
     (\<lambda>(table_idx, table_file_path).
        io_then
          (log_msg INFO
             (''(file '' @ str_nat parser_no @ ''/'' @ str_nat n_parsers
                @ '') Merging file chunk '' @ str_nat table_idx
                @ '' of '' @ str_nat n_tables))
          (io_then (open_append dst_file_path)
             (io_bind (io_read (read_lines table_file_path))
                (\<lambda>all_lines.
                   io_bind (skip_header table_idx all_lines)
                     (\<lambda>lines. append_lines dst_file_path lines)))))"

definition merged_table_path :: "string \<Rightarrow> string \<Rightarrow> string \<Rightarrow> string \<Rightarrow> string" where
  \<comment> \<open>lines 343 and 344: the path of the merged table of a parser\<close>
  "merged_table_path dst_dir_path orig_file_name_base parser_name src_file_ext =
     os_path_join dst_dir_path (orig_file_name_base @ ''.'' @ parser_name @ src_file_ext)"

definition concatenate_parser_tables ::
  "runtime \<Rightarrow> file_parser \<Rightarrow> string \<Rightarrow> string \<Rightarrow> string \<Rightarrow> nat \<times> log_parser \<Rightarrow> unit io" where
  \<comment> \<open>lines 331 to 355, the body of the loop over the parsers\<close>
  "concatenate_parser_tables rt self src_dir_path dst_dir_path orig_file_name_base =
     (\<lambda>(parser_no, parser).
        (let parser_name = short_name parser;
             parser_tables_dir = os_path_join src_dir_path parser_name
         in io_bind (io_read (get_sorted_chunk_names rt parser_tables_dir AnyName))
              (\<lambda>chunk_tables_file_names.
                 (let chunk_tables_file_paths =
                        map (os_path_join (os_path_join src_dir_path parser_name))
                          chunk_tables_file_names
                  in io_bind (first_ext chunk_tables_file_paths)
                       (\<lambda>src_file_ext.
                          (let dst_file_path =
                                 merged_table_path dst_dir_path orig_file_name_base parser_name
                                   src_file_ext
                           in for_each (List.enumerate 1 chunk_tables_file_paths)
                                (merge_table parser_no (length (log_parsers self))
                                   (length chunk_tables_file_paths) dst_file_path)))))))"

definition concatenate_tabularized_chunks ::
  "runtime \<Rightarrow> file_parser \<Rightarrow> string \<Rightarrow> string \<Rightarrow> string \<Rightarrow> unit io" where
  "concatenate_tabularized_chunks rt self src_dir_path dst_dir_path orig_file_name_base =
     for_each (List.enumerate 1 (log_parsers self))
       (concatenate_parser_tables rt self src_dir_path dst_dir_path orig_file_name_base)"






definition concatenate_unparsed_chunks :: "runtime \<Rightarrow> string \<Rightarrow> string \<Rightarrow> string \<Rightarrow> unit io" where
  "concatenate_unparsed_chunks rt src_dir_path dst_dir_path orig_file_name_base =
     (let unparsed_dir_path = os_path_join src_dir_path unparsed_short_name
      in io_bind (io_read (get_sorted_chunk_names rt unparsed_dir_path AnyName))
           (\<lambda>chunk_unparsed_file_names.
              (let chunk_unparsed_file_paths =
                     map (os_path_join (os_path_join src_dir_path unparsed_short_name))
                       chunk_unparsed_file_names
               in io_bind (first_ext chunk_unparsed_file_paths)
                    (\<lambda>src_file_ext.
                       (let dst_file_name =
                              orig_file_name_base @ ''.'' @ unparsed_short_name @ src_file_ext;
                            dst_file_path = os_path_join dst_dir_path dst_file_name
                        in for_each (List.enumerate 1 chunk_unparsed_file_paths)
                             (\<lambda>(file_idx, unparsed_file_path).
                                io_then
                                  (log_msg INFO
                                     (''(file 1/1) Merging file chunk '' @ str_nat file_idx
                                        @ '' of '' @ str_nat (length chunk_unparsed_file_paths)))
                                  (io_then (open_append dst_file_path)
                                     (io_bind (io_read (read_lines unparsed_file_path))
                                        (\<lambda>lines. append_lines dst_file_path lines)))))))))"

subsection \<open>The orchestrator\<close>

definition truthy :: "string option \<Rightarrow> bool" where
  \<comment> \<open>the truth value of an optional string: \<open>None\<close> and the empty string are false\<close>
  "truthy s = (case s of None \<Rightarrow> False | Some p \<Rightarrow> p \<noteq> [])"

definition or_else :: "string option \<Rightarrow> string \<Rightarrow> string" where
  \<comment> \<open>\<open>s or d\<close>\<close>
  "or_else s d = (case s of None \<Rightarrow> d | Some p \<Rightarrow> if p \<noteq> [] then p else d)"

definition io_try :: "'a io \<Rightarrow> (error \<Rightarrow> 'b io) \<Rightarrow> ('a \<Rightarrow> 'b io) \<Rightarrow> 'b io" where
  \<comment> \<open>\<open>try: m  except Exception as e: handler(e)  else: otherwise\<close>\<close>
  "io_try m handler otherwise =
     (\<lambda>w. case m w of (Inl e, w') \<Rightarrow> handler e w' | (Inr x, w') \<Rightarrow> otherwise x w')"

fun io_seq :: "unit io list \<Rightarrow> unit io" where
  \<comment> \<open>statements, one after the other\<close>
  "io_seq [] = io_return ()"
| "io_seq (m # ms) = io_then m (io_seq ms)"

definition parse_file_main :: "runtime \<Rightarrow> file_parser \<Rightarrow> string \<Rightarrow> string option \<Rightarrow> unit io" where
  "parse_file_main rt self logs_file_path out_dir_path =
     (let (logs_file_dir, logs_file_name_base, _) = split_file_path logs_file_path;
          run_timestamp = now rt;
          output_dir_path =
            or_else out_dir_path
              (os_path_join logs_file_dir (logs_file_name_base @ ''_'' @ run_timestamp));
          split_dir_path = os_path_join output_dir_path ''.0_split'';
          parsed_dir_path = os_path_join output_dir_path ''.1_parsed'';
          tabularized_dir_path = os_path_join output_dir_path ''.2_tabularized''
      in io_seq
           [log_msg INFO (''Initializing output directory: '' @ output_dir_path),
            os_makedirs output_dir_path False,
            log_msg INFO ''STAGE_1: Splitting source file into chunks...'',
            create_temp_directory split_dir_path False,
            split_file_into_chunks rt self logs_file_path split_dir_path,
            log_msg INFO ''STAGE_1: Source file split into chunks'',
            log_msg INFO ''STAGE_2: Parsing source file chunks...'',
            create_temp_directory parsed_dir_path False,
            parse_file_chunks rt self split_dir_path parsed_dir_path,
            remove_temp_directory self split_dir_path,
            log_msg INFO ''STAGE_2: Done parsing source file chunks'',
            log_msg INFO ''STAGE_3: Gathering unique feature names...'',
            io_bind (io_read (get_final_table_headers rt self parsed_dir_path))
              (\<lambda>records_table_headers_dict.
                 io_seq
                   [log_msg INFO ''STAGE_3: Done gathering unique feature names'',
                    log_msg INFO ''STAGE_4: Tabularizing parsed file chunks...'',
                    create_temp_directory tabularized_dir_path False,
                    tabularize_parsed_chunks rt self parsed_dir_path tabularized_dir_path
                      records_table_headers_dict,
                    log_msg INFO ''STAGE_4: Done tabularizing parsed file chunks'']),
            log_msg INFO ''STAGE_5: Merging unparsed file chunks...'',
            concatenate_unparsed_chunks rt parsed_dir_path output_dir_path logs_file_name_base,
            remove_temp_directory self parsed_dir_path,
            log_msg INFO ''STAGE_5: Done merging unparsed file chunks'',
            log_msg INFO ''STAGE_6: Merging parsed file chunks...'',
            concatenate_tabularized_chunks rt self tabularized_dir_path output_dir_path
              logs_file_name_base,
            remove_temp_directory self tabularized_dir_path,
            log_msg INFO ''STAGE_6: Done merging parsed file chunks''])"

definition parse_file :: "runtime \<Rightarrow> file_parser \<Rightarrow> string \<Rightarrow> string option \<Rightarrow> unit io" where
  "parse_file rt self src_file_path out_dir_path =
     (\<lambda>w. if \<not> os_path_exists w src_file_path
           then (Inl (AssertionError ''Specified source file path does not exist''), w)
           else if truthy out_dir_path \<and> os_path_exists w (or_else out_dir_path [])
           then (Inl (AssertionError ''Specified output directory already exists''), w)
           else io_then (log_msg INFO (''Parsing: '' @ src_file_path))
                  (io_try (parse_file_main rt self src_file_path out_dir_path)
                     (\<lambda>e. log_msg CRITICAL (''Parsing failed with exception: '' @ str_error e))
                     (\<lambda>_. log_msg INFO
                            (''Parsing completed (wall time: '' @ time_string rt @ '')''))) w)"

text \<open>The output directory that \<open>_parse_file_main\<close> derives when none is passed.\<close>

definition default_output_dir :: "runtime \<Rightarrow> string \<Rightarrow> string" where
  "default_output_dir rt logs_file_path =
     (let (logs_file_dir, logs_file_name_base, _) = split_file_path logs_file_path
      in os_path_join logs_file_dir (logs_file_name_base @ ''_'' @ now rt))"

section \<open>A small run\<close>

text \<open>
  Two parsers, a chunk of three lines, a platform and a file parser, to run the
  definitions on. The first parser reads \<open>INFO k=v,k=v\<close>; the second one reads
  \<open>RAW ...\<close> and raises on every line that starts with \<open>INFO\<close>.
\<close>

definition key_value :: "string \<Rightarrow> string \<times> string" where
  "key_value kv = (case split_on (CHR ''='') kv of [k, v] \<Rightarrow> (k, v) | _ \<Rightarrow> (kv, []))"

definition info_parser :: log_parser where
  "info_parser =
     \<lparr>short_name = ''info'',
      parse = (\<lambda>l. if startswith l ''INFO ''
                   then Inr (map key_value (split_on (CHR '','') (strip (drop 5 l))))
                   else Inl UnparsableLogError)\<rparr>"

definition faulty_parser :: log_parser where
  "faulty_parser =
     \<lparr>short_name = ''raw'',
      parse = (\<lambda>l. if startswith l ''INFO'' then Inl (OtherException ''boom'')
                   else if startswith l ''RAW '' then Inr [(''_raw'', strip l)]
                   else Inl UnparsableLogError)\<rparr>"

definition example_entries :: "string list" where
  "example_entries = [''INFO a=1\<newline>'', ''  GARBAGE \<newline>'', ''RAW xy\<newline>'']"

fun greedy_split :: "nat \<Rightarrow> string list \<Rightarrow> string \<Rightarrow> string list" where
  \<comment> \<open>whole lines are gathered into a part until the next line would exceed the size\<close>
  "greedy_split limit [] cur = (if cur = [] then [] else [cur])"
| "greedy_split limit (l # ls) cur =
     (if cur \<noteq> [] \<and> length cur + length l > limit then cur # greedy_split limit ls l
      else greedy_split limit ls (cur @ l))"

definition example_runtime :: runtime where
  "example_runtime =
     \<lparr>listdir_order = rev,
      set_order = rev,
      now = ''20240101_120000'',
      time_string = ''0:00:01'',
      str_record = (\<lambda>r. concat (map (\<lambda>(k, v). k @ ''='' @ v @ '';'') r)),
      eval_record = (\<lambda>s. Inr (map key_value (filter (\<lambda>kv. kv \<noteq> []) (split_on (CHR '';'') (strip s))))),
      filesplit = (\<lambda>text limit. if limit < 1 then Inl (OtherException ''split size'')
                                else Inr (greedy_split (nat limit) (lines_from [] text) [],
                                          ''filename,filesize\<newline>'')),
      dir_size = 4096\<rparr>"

definition example_export :: "table \<Rightarrow> error + string" where
  \<comment> \<open>tab-separated: the header row, then one row per record, an absent field empty\<close>
  "example_export = (\<lambda>(headers, records).
     Inr (concat (map (\<lambda>row. concat (map (\<lambda>cell. cell @ [CHR 0x09]) row) @ [newline])
            (headers # map (\<lambda>r. map (\<lambda>h. case map_of r h of None \<Rightarrow> [] | Some v \<Rightarrow> v) headers)
                         records))))"

definition example_parser :: file_parser where
  "example_parser =
     \<lparr>log_parsers = [info_parser, faulty_parser],
      chunk_byte_size = 12,
      delete_intermediate_result_dirs = True,
      export_df = example_export\<rparr>"

definition example_world :: world where
  "example_world =
     \<lparr>dirs = [''/data''],
      files = [(''/data/app.log'', ''INFO a=1\<newline>GARBAGE\<newline>INFO a=2,b=x\<newline>'')],
      log = []\<rparr>"

text \<open>The same world with the derived output directory of the run already there.\<close>

definition occupied_world :: world where
  "occupied_world = example_world\<lparr>dirs := [''/data'', ''/data/app_20240101_120000'']\<rparr>"

text \<open>
  A file parser with the first parser only; a parsed directory in which a file that is no
  chunk lies beside the records and keys of the parser; and a parsed directory with two
  key files.
\<close>

definition info_only :: file_parser where
  "info_only = example_parser\<lparr>log_parsers := [info_parser]\<rparr>"

definition stray_world :: world where
  "stray_world =
     \<lparr>dirs = [''/out'', ''/out/.1_parsed'', ''/out/.1_parsed/info'', ''/out/.1_parsed/na''],
      files = [(''/out/.1_parsed/info/chunk_1.info.records'', ''a=1;\<newline>''),
               (''/out/.1_parsed/info/chunk_1.info.keys'', ''a\<newline>''),
               (''/out/.1_parsed/info/notes.txt'', ''hello''),
               (''/out/.1_parsed/na/chunk_1.na.log'', ''GARBAGE\<newline>'')],
      log = []\<rparr>"

definition keys_world :: world where
  "keys_world =
     \<lparr>dirs = [''/p'', ''/p/info''],
      files = [(''/p/info/chunk_2.info.keys'', ''A\<newline>_a\<newline>b\<newline>''),
               (''/p/info/chunk_1.info.keys'', ''b\<newline>_z\<newline>'')],
      log = []\<rparr>"






definition empty_tables_world :: world where
  "empty_tables_world =
     \<lparr>dirs = [''/out'', ''/out/.2_tabularized'', ''/out/.2_tabularized/info''],
      files = [],
      log = []\<rparr>"

definition no_keys_world :: world where
  "no_keys_world =
     \<lparr>dirs = [''/p'', ''/p/raw''],
      files = [(''/p/raw/chunk_1.raw.keys'', []), (''/p/raw/chunk_2.raw.keys'', []),
               (''/p/raw/chunk_1.raw.records'', []), (''/p/raw/chunk_2.raw.records'', [])],
      log = []\<rparr>"

section \<open>Properties of the file system operations\<close>

text \<open>Logging leaves the file system as it is.\<close>

lemma os_path_isdir_log: "os_path_isdir (w\<lparr>log := x\<rparr>) p = os_path_isdir w p"
  by (simp add: os_path_isdir_def)

lemma os_path_isfile_log: "os_path_isfile (w\<lparr>log := x\<rparr>) p = os_path_isfile w p"
  by (simp add: os_path_isfile_def)

lemma os_path_exists_log: "os_path_exists (w\<lparr>log := x\<rparr>) p = os_path_exists w p"
  by (simp add: os_path_exists_def os_path_isdir_log os_path_isfile_log)

lemma under_file_log: "under_file (w\<lparr>log := x\<rparr>) p = under_file w p"
  by (simp add: under_file_def os_path_isfile_log)

lemma parent_exists_log: "parent_exists (w\<lparr>log := x\<rparr>) p = parent_exists w p"
  by (simp add: parent_exists_def os_path_isdir_log)

lemma missing_error_log: "missing_error (w\<lparr>log := x\<rparr>) p s = missing_error w p s"
  by (simp add: missing_error_def under_file_log)

lemma create_error_log: "create_error (w\<lparr>log := x\<rparr>) p s = create_error w p s"
  by (simp add: create_error_def under_file_log parent_exists_log missing_error_log)

lemma open_write_log: "open_write p (w\<lparr>log := x\<rparr>) = open_write p w"
  by (simp add: open_write_def create_error_log os_path_isdir_log os_path_isfile_log)

text \<open>
  \<open>os.makedirs\<close> on a path that exists, when it has no directory to make above it: the
  \<open>mkdir\<close> of the path itself raises, and nothing has been created.
\<close>

lemma os_makedirs_existing:
  assumes "os_path_exists w name" and "name \<noteq> []"
    and "no_missing_parent w name"
  shows "os_makedirs name False w = (Inl (eexist name), w)"
proof -
  have "os_makedirs name False w = mkdir_leaf name False w"
    using assms(3) by (subst os_makedirs.simps) (auto simp: Let_def no_missing_parent_def)
  also have "\<dots> = (Inl (eexist name), w)"
    using assms(1,2) by (simp add: mkdir_leaf_def os_mkdir_def Let_def)
  finally show ?thesis .
qed






lemma is_file_exists: "map_of (files w) q = Some content \<Longrightarrow> os_path_exists w q"
proof -
  assume "map_of (files w) q = Some content"
  then have "q \<in> fst ` set (files w)"
    by (metis map_of_eq_None_iff option.distinct(1))
  then show ?thesis by (simp add: os_path_exists_def os_path_isfile_def)
qed





section \<open>Properties of the chunk parser\<close>

lemma try_parsers_eq:
  "try_parsers ps l st =
     (case first_claimant ps l of
        None \<Rightarrow> Inr (st\<lparr>unparsed_logs := unparsed_logs st @ [strip l]\<rparr>)
      | Some (n, p) \<Rightarrow>
          (case parse p l of
             Inr r \<Rightarrow> Inr (st\<lparr>records_dict := AList.map_entry n (\<lambda>rs. rs @ [r]) (records_dict st),
                  keys_dict := AList.map_entry n (\<lambda>ks. set_update ks (map fst r)) (keys_dict st)\<rparr>)
           | Inl e \<Rightarrow> Inl e))"
proof (induction ps)
  case Nil
  show ?case by (simp add: first_claimant_def)
next
  case (Cons np ps)
  obtain n p where np: "np = (n, p)" by (cases np)
  show ?case using Cons
    by (auto simp: np first_claimant_def claims_def split: sum.splits)
qed

lemma map_if_fresh:
  "k \<notin> fst ` set al \<Longrightarrow> map (\<lambda>(n, v). (n, if n = k then f v else v)) al = al"
  by (induction al) auto

lemma map_entry_distinct:
  "distinct (map fst al) \<Longrightarrow>
   AList.map_entry k f al = map (\<lambda>(n, v). (n, if n = k then f v else v)) al"
  by (induction al) (auto simp: map_if_fresh)

lemma update_fresh: "k \<notin> fst ` set al \<Longrightarrow> AList.update k v al = al @ [(k, v)]"
  by (induction al) auto

lemma make_parsers_aux:
  "distinct (map short_name ps) \<Longrightarrow> fst ` set d \<inter> short_name ` set ps = {} \<Longrightarrow>
   foldl (\<lambda>d p. AList.update (short_name p) p d) d ps = d @ map (\<lambda>p. (short_name p, p)) ps"
proof (induction ps arbitrary: d)
  case Nil
  show ?case by simp
next
  case (Cons p ps)
  have fresh: "short_name p \<notin> fst ` set d" using Cons.prems(2) by auto
  have "fst ` set (d @ [(short_name p, p)]) \<inter> short_name ` set ps = {}"
    using Cons.prems by auto
  with Cons show ?case by (simp add: update_fresh [OF fresh])
qed

lemma make_parsers_distinct:
  "distinct (map short_name ps) \<Longrightarrow> make_parsers ps = map (\<lambda>p. (short_name p, p)) ps"
  using make_parsers_aux [of ps "[]"] by (simp add: make_parsers_def)

lemma first_claimant_mem: "first_claimant ps l = Some (n, p) \<Longrightarrow> (n, p) \<in> set ps"
  by (auto simp: first_claimant_def find_Some_iff)

lemma map_entry_keys: "map fst (AList.map_entry k f al) = map fst al"
  by (induction al) auto

lemma map_entry_total:
  "k \<in> fst ` set al \<Longrightarrow>
   sum_list (map (\<lambda>nr. length (snd nr)) (AList.map_entry k (\<lambda>rs. rs @ [r]) al)) =
   Suc (sum_list (map (\<lambda>nr. length (snd nr)) al))"
  by (induction al) auto

lemma try_parsers_total:
  assumes "try_parsers ps l st = Inr st'"
    and "fst ` set ps \<subseteq> fst ` set (records_dict st)"
  shows "total_records st' + length (unparsed_logs st') =
           Suc (total_records st + length (unparsed_logs st))
         \<and> map fst (records_dict st') = map fst (records_dict st)"
proof (cases "first_claimant ps l")
  case None
  with assms show ?thesis by (auto simp: try_parsers_eq total_records_def)
next
  case (Some np)
  obtain n p where np: "np = (n, p)" by (cases np)
  have mem: "n \<in> fst ` set (records_dict st)"
    using first_claimant_mem [of ps l n p] Some np assms(2) by force
  from assms(1) Some np obtain r where r: "parse p l = Inr r"
    and st': "st' = st\<lparr>records_dict := AList.map_entry n (\<lambda>rs. rs @ [r]) (records_dict st),
                  keys_dict := AList.map_entry n (\<lambda>ks. set_update ks (map fst r)) (keys_dict st)\<rparr>"
    by (auto simp: try_parsers_eq split: sum.splits)
  show ?thesis
    by (simp add: st' total_records_def map_entry_total [OF mem] map_entry_keys)
qed

lemma parse_entries_total:
  "parse_entries ps entries st = Inr st' \<Longrightarrow> fst ` set ps \<subseteq> fst ` set (records_dict st) \<Longrightarrow>
   total_records st' + length (unparsed_logs st') =
     total_records st + length (unparsed_logs st) + length entries"
proof (induction entries arbitrary: st)
  case Nil
  then show ?case by simp
next
  case (Cons l entries)
  from Cons.prems(1) obtain st1 where st1: "try_parsers ps l st = Inr st1"
    and rest: "parse_entries ps entries st1 = Inr st'"
    by (auto split: sum.splits)
  note step = try_parsers_total [OF st1 Cons.prems(2)]
  have "fst ` set ps \<subseteq> fst ` set (records_dict st1)"
    using Cons.prems(2) step by (metis set_map)
  from Cons.IH [OF rest this] step show ?case by simp
qed

lemma parse_entries_spec:
  assumes "distinct (map fst (records_dict st))"
    and "\<forall>l\<in>set entries. \<forall>n p. first_claimant ps l = Some (n, p) \<longrightarrow> (\<exists>r. parse p l = Inr r)"
  shows "\<exists>st'. parse_entries ps entries st = Inr st'
           \<and> records_dict st' =
               map (\<lambda>(n, rs). (n, rs @ claimed_records ps n entries)) (records_dict st)
           \<and> unparsed_logs st' =
               unparsed_logs st @ map strip (filter (\<lambda>l. first_claimant ps l = None) entries)"
  using assms
proof (induction entries arbitrary: st)
  case Nil
  then show ?case by (simp add: claimed_records_def)
next
  case (Cons l entries)
  show ?case
  proof (cases "first_claimant ps l")
    case None
    let ?st1 = "st\<lparr>unparsed_logs := unparsed_logs st @ [strip l]\<rparr>"
    have 1: "try_parsers ps l st = Inr ?st1" by (simp add: try_parsers_eq None)
    have "distinct (map fst (records_dict ?st1))" using Cons.prems(1) by simp
    from Cons.IH [OF this] Cons.prems(2) obtain st' where
      "parse_entries ps entries ?st1 = Inr st'"
      "records_dict st' = map (\<lambda>(n, rs). (n, rs @ claimed_records ps n entries)) (records_dict ?st1)"
      "unparsed_logs st' = unparsed_logs ?st1 @ map strip (filter (\<lambda>l. first_claimant ps l = None) entries)"
      by auto
    then show ?thesis using 1 None by (simp add: claimed_records_def)
  next
    case (Some np)
    obtain n p where np: "np = (n, p)" by (cases np)
    from Cons.prems(2) Some np obtain r where r: "parse p l = Inr r" by auto
    let ?st1 = "st\<lparr>records_dict := AList.map_entry n (\<lambda>rs. rs @ [r]) (records_dict st),
                  keys_dict := AList.map_entry n (\<lambda>ks. set_update ks (map fst r)) (keys_dict st)\<rparr>"
    have 1: "try_parsers ps l st = Inr ?st1" by (simp add: try_parsers_eq Some np r)
    have "distinct (map fst (records_dict ?st1))" using Cons.prems(1) by (simp add: map_entry_keys)
    from Cons.IH [OF this] Cons.prems(2) obtain st' where
      "parse_entries ps entries ?st1 = Inr st'"
      "records_dict st' = map (\<lambda>(n, rs). (n, rs @ claimed_records ps n entries)) (records_dict ?st1)"
      "unparsed_logs st' = unparsed_logs ?st1 @ map strip (filter (\<lambda>l. first_claimant ps l = None) entries)"
      by auto
    then show ?thesis using 1 Some np r Cons.prems(1)
      by (auto simp: claimed_records_def map_entry_distinct)
  qed
qed

lemma first_claimant_map:
  "first_claimant (map (\<lambda>p. (short_name p, p)) ps) l =
     map_option (\<lambda>p. (short_name p, p)) (claimant ps l)"
  by (induction ps) (simp_all add: first_claimant_def claimant_def)

lemma claimed_records_map:
  "claimed_records (map (\<lambda>p. (short_name p, p)) ps) n entries = records_of ps n entries"
  unfolding claimed_records_def records_of_def first_claimant_map
  by (rule arg_cong [where f = concat], rule map_cong) (auto split: option.splits)

lemma parse_entries_unparsed:
  "parse_entries ps entries st = Inr st' \<Longrightarrow>
   unparsed_logs st' =
     unparsed_logs st @ map strip (filter (\<lambda>l. first_claimant ps l = None) entries)"
proof (induction entries arbitrary: st)
  case Nil
  then show ?case by simp
next
  case (Cons l entries)
  from Cons.prems obtain st1 where st1: "try_parsers ps l st = Inr st1"
    and rest: "parse_entries ps entries st1 = Inr st'"
    by (auto split: sum.splits)
  from st1 have "unparsed_logs st1 =
      unparsed_logs st @ (if first_claimant ps l = None then [strip l] else [])"
    by (auto simp: try_parsers_eq split: option.splits sum.splits)
  with Cons.IH [OF rest] show ?case by simp
qed

lemma rstrip_split:
  "m = rev (dropWhile P (rev m)) @ rev (takeWhile P (rev m))"
proof -
  have "rev (dropWhile P (rev m)) @ rev (takeWhile P (rev m)) =
        rev (takeWhile P (rev m) @ dropWhile P (rev m))"
    by (simp only: rev_append)
  also have "\<dots> = rev (rev m)" by (simp only: takeWhile_dropWhile_id)
  finally show ?thesis by simp
qed

lemma strip_decomp:
  "\<exists>a b. l = a @ strip l @ b \<and> (\<forall>c\<in>set a. is_space c) \<and> (\<forall>c\<in>set b. is_space c)"
proof -
  let ?m = "dropWhile is_space l"
  have 1: "l = takeWhile is_space l @ ?m" by simp
  have 2: "?m = strip l @ rev (takeWhile is_space (rev ?m))"
    unfolding strip_def rstrip_def lstrip_def by (rule rstrip_split)
  have "l = takeWhile is_space l @ strip l @ rev (takeWhile is_space (rev ?m))"
    using 1 2 by metis
  moreover have "\<forall>c\<in>set (takeWhile is_space l). is_space c"
    by (auto dest: set_takeWhileD)
  moreover have "\<forall>c\<in>set (rev (takeWhile is_space (rev ?m))). is_space c"
    by (auto dest: set_takeWhileD)
  ultimately show ?thesis by blast
qed

lemma strip_ends:
  assumes "strip l \<noteq> []"
  shows "\<not> is_space (hd (strip l)) \<and> \<not> is_space (last (strip l))"
proof -
  let ?m = "dropWhile is_space l"
  let ?d = "dropWhile is_space (rev ?m)"
  have s: "strip l = rev ?d" by (simp add: strip_def rstrip_def lstrip_def)
  with assms have d: "?d \<noteq> []" by simp
  have "\<not> is_space (hd ?d)" using d by (rule hd_dropWhile)
  then have last: "\<not> is_space (last (strip l))" using d by (simp add: s last_rev)
  have m: "?m = rev ?d @ rev (takeWhile is_space (rev ?m))" by (rule rstrip_split)
  from d have "hd (rev ?d @ rev (takeWhile is_space (rev ?m))) = hd (rev ?d)" by simp
  with m have "hd ?m = hd (strip l)" using s by metis
  moreover have "?m \<noteq> []" using m d by (metis Nil_is_append_conv rev_is_Nil_conv)
  then have "\<not> is_space (hd ?m)" by (rule hd_dropWhile)
  ultimately show ?thesis using last by simp
qed

lemma example_run:
  "parse_chunk_lines [info_parser, faulty_parser] example_entries =
     Inr \<lparr>records_dict = [(''info'', [[(''a'', ''1'')]]), (''raw'', [[(''_raw'', ''RAW xy'')]])],
          keys_dict = [(''info'', [''a'']), (''raw'', [''_raw''])],
          unparsed_logs = [''GARBAGE'']\<rparr>"
  by (simp add: parse_chunk_lines_def make_parsers_def init_result_def example_entries_def
        info_parser_def faulty_parser_def startswith_def set_update_def key_value_def split_on_def
        strip_def rstrip_def lstrip_def is_space_def)

text \<open>
  Claim C2. Let the configured parsers have distinct short names, and let the first parser
  that does not signal the unparsable condition on a line return a record (a later parser
  may raise anything: it is never called for that line). Then \<open>_parse_file_chunk\<close> gives
  every line of the chunk exactly one outcome: its record is appended to the records of the
  first parser, in the configured order, that claims it, or, when every parser signals
  unparsable, the line goes to the unparsed collection. Hence the number of records over
  all parsers plus the number of unparsed lines is the number of lines of the chunk.
\<close>

theorem parse_file_chunk_line_outcome:
  assumes "distinct (map short_name parser_list)"
    and "\<forall>l\<in>set entries. \<forall>p. claimant parser_list l = Some p \<longrightarrow> (\<exists>r. parse p l = Inr r)"
  shows "\<exists>res. parse_chunk_lines parser_list entries = Inr res
           \<and> records_dict res =
               map (\<lambda>p. (short_name p, records_of parser_list (short_name p) entries)) parser_list
           \<and> unparsed_logs res = map strip (filter (\<lambda>l. claimant parser_list l = None) entries)
           \<and> total_records res + length (unparsed_logs res) = length entries"
proof -
  let ?ps = "map (\<lambda>p. (short_name p, p)) parser_list"
  have mk: "make_parsers parser_list = ?ps" using assms(1) by (rule make_parsers_distinct)
  have d: "distinct (map fst (records_dict (init_result ?ps)))"
    using assms(1) by (simp add: init_result_def comp_def case_prod_unfold)
  have ok: "\<forall>l\<in>set entries. \<forall>n p. first_claimant ?ps l = Some (n, p) \<longrightarrow> (\<exists>r. parse p l = Inr r)"
    using assms(2) by (auto simp: first_claimant_map)
  from parse_entries_spec [OF d ok] obtain res where
    run: "parse_entries ?ps entries (init_result ?ps) = Inr res"
    and recs: "records_dict res =
      map (\<lambda>(n, rs). (n, rs @ claimed_records ?ps n entries)) (records_dict (init_result ?ps))"
    and unp: "unparsed_logs res =
      unparsed_logs (init_result ?ps) @ map strip (filter (\<lambda>l. first_claimant ?ps l = None) entries)"
    by blast
  have sub: "fst ` set ?ps \<subseteq> fst ` set (records_dict (init_result ?ps))"
    by (force simp: init_result_def)
  have tot: "total_records res + length (unparsed_logs res) = length entries"
    using parse_entries_total [OF run sub] by (simp add: init_result_def total_records_def comp_def case_prod_unfold)
  have "parse_chunk_lines parser_list entries = Inr res"
    using run by (simp add: parse_chunk_lines_def mk Let_def)
  moreover have "records_dict res =
      map (\<lambda>p. (short_name p, records_of parser_list (short_name p) entries)) parser_list"
    using recs by (simp add: init_result_def claimed_records_map comp_def)
  moreover have "unparsed_logs res = map strip (filter (\<lambda>l. claimant parser_list l = None) entries)"
    using unp by (simp add: init_result_def first_claimant_map)
  ultimately show ?thesis using tot by blast
qed

theorem parse_file_chunk_line_outcome_witness:
  "distinct (map short_name [info_parser, faulty_parser])
   \<and> (\<exists>res. parse_chunk_lines [info_parser, faulty_parser] example_entries = Inr res
           \<and> records_dict res =
               map (\<lambda>p. (short_name p, records_of [info_parser, faulty_parser] (short_name p) example_entries))
                 [info_parser, faulty_parser]
           \<and> unparsed_logs res =
               map strip (filter (\<lambda>l. claimant [info_parser, faulty_parser] l = None) example_entries)
           \<and> total_records res + length (unparsed_logs res) = length example_entries)"
proof -
  have h1: "distinct (map short_name [info_parser, faulty_parser])"
    by (simp add: info_parser_def faulty_parser_def)
  have h2: "\<forall>l\<in>set example_entries. \<forall>p. claimant [info_parser, faulty_parser] l = Some p
          \<longrightarrow> (\<exists>r. parse p l = Inr r)"
    by (simp add: example_entries_def claimant_def claims_def info_parser_def faulty_parser_def
          startswith_def)
  from parse_file_chunk_line_outcome [OF h1 h2] h1 show ?thesis by blast
qed

text \<open>
  Claim C5, as the code has it. The unparsed collection holds, in their order in the chunk,
  the lines that no parser claims, each passed through \<open>str.strip()\<close>: the whitespace at
  both ends of the line is removed, the leading one too, and what lies between is kept
  unchanged.
\<close>

theorem unparsed_lines_stripped:
  assumes "distinct (map short_name parser_list)"
    and "parse_chunk_lines parser_list entries = Inr res"
  shows "unparsed_logs res = map strip (filter (\<lambda>l. claimant parser_list l = None) entries)
         \<and> (\<forall>l\<in>set entries. \<exists>a b. l = a @ strip l @ b
               \<and> (\<forall>c\<in>set a. is_space c) \<and> (\<forall>c\<in>set b. is_space c)
               \<and> (strip l \<noteq> [] \<longrightarrow> \<not> is_space (hd (strip l)) \<and> \<not> is_space (last (strip l))))"
proof -
  let ?ps = "map (\<lambda>p. (short_name p, p)) parser_list"
  have mk: "make_parsers parser_list = ?ps" using assms(1) by (rule make_parsers_distinct)
  from assms(2) have "parse_entries ?ps entries (init_result ?ps) = Inr res"
    by (simp add: parse_chunk_lines_def mk Let_def)
  from parse_entries_unparsed [OF this]
  have "unparsed_logs res = map strip (filter (\<lambda>l. claimant parser_list l = None) entries)"
    by (simp add: init_result_def first_claimant_map)
  moreover have "\<exists>a b. l = a @ strip l @ b
               \<and> (\<forall>c\<in>set a. is_space c) \<and> (\<forall>c\<in>set b. is_space c)
               \<and> (strip l \<noteq> [] \<longrightarrow> \<not> is_space (hd (strip l)) \<and> \<not> is_space (last (strip l)))" for l
    using strip_decomp [of l] strip_ends [of l] by blast
  ultimately show ?thesis by blast
qed

theorem unparsed_lines_stripped_witness:
  "distinct (map short_name [info_parser, faulty_parser])
   \<and> unparsed_logs \<lparr>records_dict = [(''info'', [[(''a'', ''1'')]]), (''raw'', [[(''_raw'', ''RAW xy'')]])],
          keys_dict = [(''info'', [''a'']), (''raw'', [''_raw''])],
          unparsed_logs = [''GARBAGE'']\<rparr> =
         map strip (filter (\<lambda>l. claimant [info_parser, faulty_parser] l = None) example_entries)"
proof -
  have h1: "distinct (map short_name [info_parser, faulty_parser])"
    by (simp add: info_parser_def faulty_parser_def)
  from unparsed_lines_stripped [OF h1 example_run] h1 show ?thesis by blast
qed

text \<open>
  Trimming only the trailing whitespace would keep the two leading blanks of the second
  line of the example chunk; the code drops them.
\<close>

theorem unparsed_trailing_only_counterexample:
  "parse_chunk_lines [info_parser, faulty_parser] example_entries =
     Inr \<lparr>records_dict = [(''info'', [[(''a'', ''1'')]]), (''raw'', [[(''_raw'', ''RAW xy'')]])],
          keys_dict = [(''info'', [''a'']), (''raw'', [''_raw''])],
          unparsed_logs = [''GARBAGE'']\<rparr>
   \<and> [''GARBAGE''] \<noteq> [rstrip ''  GARBAGE \<newline>'']"
  by (simp add: parse_chunk_lines_def make_parsers_def init_result_def example_entries_def
        info_parser_def faulty_parser_def startswith_def set_update_def key_value_def split_on_def
        strip_def rstrip_def lstrip_def is_space_def)

section \<open>Properties of the orchestrator\<close>

lemma create_temp_directory_existing:
  "os_path_exists w dir_path \<Longrightarrow> create_temp_directory dir_path exist_ok w = (Inr (), w)"
  by (simp add: create_temp_directory_def Let_def)

lemma split_app_log: "split_file_path ''/data/app.log'' = (''/data'', ''app'', ''.log'')"
  by (simp add: split_file_path_def os_path_split_def os_path_splitext_def slash_def dot_def Let_def)

lemma default_output_dir_nonempty: "default_output_dir rt logs_file_path \<noteq> []"
  by (simp add: default_output_dir_def os_path_join_def split: prod.splits)

lemma parse_file_main_makedirs_fails:
  assumes "os_path_exists w (or_else out_dir_path (default_output_dir rt logs_file_path))"
    and "or_else out_dir_path (default_output_dir rt logs_file_path) \<noteq> []"
    and "no_missing_parent w (or_else out_dir_path (default_output_dir rt logs_file_path))"
  shows "parse_file_main rt self logs_file_path out_dir_path w =
           (Inl (eexist (or_else out_dir_path (default_output_dir rt logs_file_path))),
            w\<lparr>log := log w @ [(INFO, ''Initializing output directory: ''
                     @ or_else out_dir_path (default_output_dir rt logs_file_path))]\<rparr>)"
proof -
  let ?out = "or_else out_dir_path (default_output_dir rt logs_file_path)"
  let ?w1 = "w\<lparr>log := log w @ [(INFO, ''Initializing output directory: '' @ ?out)]\<rparr>"
  obtain d b e where s: "split_file_path logs_file_path = (d, b, e)"
    by (cases "split_file_path logs_file_path") auto
  have "os_path_exists ?w1 ?out" and "no_missing_parent ?w1 ?out"
    using assms(1,3) by (simp_all add: os_path_exists_log no_missing_parent_def)
  from os_makedirs_existing [OF this(1) assms(2) this(2)]
  have m: "os_makedirs ?out False ?w1 = (Inl (eexist ?out), ?w1)" .
  have o: "or_else out_dir_path (os_path_join d (b @ ''_'' @ now rt)) = ?out"
    by (simp add: default_output_dir_def s)
  show ?thesis
    unfolding parse_file_main_def s Let_def prod.case o io_seq.simps io_then_def io_bind_def
      log_msg_def
    by (simp add: m [simplified])
qed

text \<open>
  Claim C8. The claim asks for a \<open>FileExistsError\<close> when \<open>_create_temp_directory\<close> is
  called with \<open>exist_ok=False\<close> on a path that exists. Line 383 builds the exception and
  never raises it: on the existing directory \<open>/data\<close> the call returns normally and
  leaves the world as it was.
\<close>

theorem create_temp_directory_silent:
  "os_path_exists example_world ''/data''
   \<and> create_temp_directory ''/data'' False example_world = (Inr (), example_world)"
  by (simp add: create_temp_directory_def os_path_exists_def os_path_isdir_def example_world_def
        Let_def)

text \<open>
  Claim C6. When the source file exists and the output directory, if one is passed, does
  not, \<open>parse_file\<close> returns normally whatever \<open>_parse_file_main\<close> does: an exception
  raised inside it is caught once and adds one entry of level critical to the log, after
  which \<open>parse_file\<close> returns; a run without exception adds the closing entry of level
  info.
\<close>

theorem parse_file_contains_faults:
  assumes "os_path_exists w src_file_path"
    and "truthy out_dir_path \<longrightarrow> \<not> os_path_exists w (or_else out_dir_path [])"
  shows "\<exists>w'. parse_file rt self src_file_path out_dir_path w = (Inr (), w')
          \<and> (case parse_file_main rt self src_file_path out_dir_path
                     (w\<lparr>log := log w @ [(INFO, ''Parsing: '' @ src_file_path)]\<rparr>) of
                (Inl e, w2) \<Rightarrow>
                   w' = w2\<lparr>log := log w2 @ [(CRITICAL, ''Parsing failed with exception: '' @ str_error e)]\<rparr>
              | (Inr _, w2) \<Rightarrow>
                   w' = w2\<lparr>log := log w2 @ [(INFO, ''Parsing completed (wall time: '' @ time_string rt @ '')'')]\<rparr>)"
  using assms
  by (auto simp: parse_file_def io_then_def io_bind_def io_try_def log_msg_def split: prod.splits sum.splits)

theorem parse_file_contains_faults_witness:
  "os_path_exists example_world ''/data/app.log''
   \<and> (\<exists>w'. parse_file example_runtime (example_parser\<lparr>log_parsers := [faulty_parser]\<rparr>)
                ''/data/app.log'' None example_world = (Inr (), w'))"
proof -
  have h1: "os_path_exists example_world ''/data/app.log''"
    by (simp add: os_path_exists_def os_path_isfile_def example_world_def)
  have h2: "truthy None \<longrightarrow> \<not> os_path_exists example_world (or_else None [])"
    by (simp add: truthy_def)
  from parse_file_contains_faults [OF h1 h2] h1 show ?thesis by blast
qed

text \<open>
  Claim C9, as the code has it. When the source file does not exist, or an output
  directory is passed and exists, \<open>parse_file\<close> raises an \<open>AssertionError\<close> to its caller
  and the world is untouched: nothing is logged, no directory is created. When no output
  directory is passed and the derived one exists, nothing is raised to the caller:
  \<open>os.makedirs\<close> raises \<open>FileExistsError\<close> inside \<open>_parse_file_main\<close>, after the first
  two entries of the log; \<open>parse_file\<close> catches it, logs it at level critical with the
  text of the error, and returns. The run has added three entries to the log and has
  created no directory and no file.
\<close>

theorem parse_file_preconditions:
  "(\<not> os_path_exists w src_file_path \<or> (truthy out_dir_path \<and> os_path_exists w (or_else out_dir_path [])) \<longrightarrow>
      (\<exists>msg. parse_file rt self src_file_path out_dir_path w = (Inl (AssertionError msg), w)))
   \<and> (os_path_exists w src_file_path \<and> \<not> truthy out_dir_path
        \<and> os_path_exists w (default_output_dir rt src_file_path)
        \<and> no_missing_parent w (default_output_dir rt src_file_path) \<longrightarrow>
      parse_file_main rt self src_file_path out_dir_path
          (w\<lparr>log := log w @ [(INFO, ''Parsing: '' @ src_file_path)]\<rparr>) =
        (Inl (FileExistsError
               (''[Errno 17] File exists: '' @ py_repr (default_output_dir rt src_file_path))),
         w\<lparr>log := log w @
           [(INFO, ''Parsing: '' @ src_file_path),
            (INFO, ''Initializing output directory: '' @ default_output_dir rt src_file_path)]\<rparr>)
      \<and> parse_file rt self src_file_path out_dir_path w =
        (Inr (),
         w\<lparr>log := log w @
           [(INFO, ''Parsing: '' @ src_file_path),
            (INFO, ''Initializing output directory: '' @ default_output_dir rt src_file_path),
            (CRITICAL, ''Parsing failed with exception: [Errno 17] File exists: ''
               @ py_repr (default_output_dir rt src_file_path))]\<rparr>))"
proof (intro conjI impI)
  assume "\<not> os_path_exists w src_file_path \<or> (truthy out_dir_path \<and> os_path_exists w (or_else out_dir_path []))"
  then show "\<exists>msg. parse_file rt self src_file_path out_dir_path w = (Inl (AssertionError msg), w)"
    by (auto simp: parse_file_def)
next
  assume a: "os_path_exists w src_file_path \<and> \<not> truthy out_dir_path
        \<and> os_path_exists w (default_output_dir rt src_file_path)
        \<and> no_missing_parent w (default_output_dir rt src_file_path)"
  let ?w1 = "w\<lparr>log := log w @ [(INFO, ''Parsing: '' @ src_file_path)]\<rparr>"
  let ?out = "default_output_dir rt src_file_path"
  have o: "or_else out_dir_path d = d" for d
    using a by (auto simp: truthy_def or_else_def split: option.splits)
  have "os_path_exists ?w1 (or_else out_dir_path ?out)"
    and "or_else out_dir_path ?out \<noteq> []"
    and "no_missing_parent ?w1 (or_else out_dir_path ?out)"
    using a by (simp_all add: o os_path_exists_log no_missing_parent_def default_output_dir_nonempty)
  from parse_file_main_makedirs_fails [OF this, of self]
  have m: "parse_file_main rt self src_file_path out_dir_path ?w1 =
      (Inl (eexist ?out), ?w1\<lparr>log := log ?w1 @ [(INFO, ''Initializing output directory: '' @ ?out)]\<rparr>)"
    by (simp add: o)
  then show "parse_file_main rt self src_file_path out_dir_path ?w1 =
        (Inl (FileExistsError (''[Errno 17] File exists: '' @ py_repr ?out)),
         w\<lparr>log := log w @
           [(INFO, ''Parsing: '' @ src_file_path),
            (INFO, ''Initializing output directory: '' @ ?out)]\<rparr>)"
    by (simp add: eexist_def)
  show "parse_file rt self src_file_path out_dir_path w =
        (Inr (),
         w\<lparr>log := log w @
           [(INFO, ''Parsing: '' @ src_file_path),
            (INFO, ''Initializing output directory: '' @ ?out),
            (CRITICAL, ''Parsing failed with exception: [Errno 17] File exists: ''
               @ py_repr ?out)]\<rparr>)"
    using a unfolding parse_file_def io_then_def io_bind_def io_try_def log_msg_def
    by (simp add: m [simplified] o eexist_def str_error_def)
qed

theorem parse_file_preconditions_witness:
  "\<not> os_path_exists example_world ''/data/missing.log''
   \<and> (\<exists>msg. parse_file example_runtime example_parser ''/data/missing.log'' (Some ''/data'')
                 example_world = (Inl (AssertionError msg), example_world))
   \<and> os_path_exists occupied_world ''/data/app.log''
   \<and> os_path_exists occupied_world (default_output_dir example_runtime ''/data/app.log'')
   \<and> no_missing_parent occupied_world (default_output_dir example_runtime ''/data/app.log'')
   \<and> parse_file example_runtime example_parser ''/data/app.log'' None occupied_world =
        (Inr (),
         occupied_world\<lparr>log := log occupied_world @
           [(INFO, ''Parsing: /data/app.log''),
            (INFO, ''Initializing output directory: ''
               @ default_output_dir example_runtime ''/data/app.log''),
            (CRITICAL, ''Parsing failed with exception: [Errno 17] File exists: ''
               @ py_repr (default_output_dir example_runtime ''/data/app.log''))]\<rparr>)"
proof -
  have d: "default_output_dir example_runtime ''/data/app.log'' = ''/data/app_20240101_120000''"
    by (simp add: default_output_dir_def split_app_log os_path_join_def example_runtime_def slash_def)
  have h1: "\<not> os_path_exists example_world ''/data/missing.log''"
    by (simp add: os_path_exists_def os_path_isdir_def os_path_isfile_def is_root_def slash_def
          example_world_def)
  have h2: "os_path_exists occupied_world ''/data/app.log''"
    by (simp add: os_path_exists_def os_path_isfile_def occupied_world_def example_world_def)
  have h3: "os_path_exists occupied_world (default_output_dir example_runtime ''/data/app.log'')"
    by (simp add: d os_path_exists_def os_path_isdir_def occupied_world_def example_world_def)
  have h4: "\<not> truthy None" by (simp add: truthy_def)
  have h5: "no_missing_parent occupied_world (default_output_dir example_runtime ''/data/app.log'')"
    unfolding d by code_simp
  from parse_file_preconditions [of example_world "''/data/missing.log''" "Some ''/data''"
      example_runtime example_parser] h1
  have a: "\<exists>msg. parse_file example_runtime example_parser ''/data/missing.log'' (Some ''/data'')
                 example_world = (Inl (AssertionError msg), example_world)"
    by blast
  from parse_file_preconditions [of occupied_world "''/data/app.log''" None
      example_runtime example_parser] h2 h3 h4 h5
  have b: "parse_file example_runtime example_parser ''/data/app.log'' None occupied_world =
        (Inr (),
         occupied_world\<lparr>log := log occupied_world @
           [(INFO, ''Parsing: /data/app.log''),
            (INFO, ''Initializing output directory: ''
               @ default_output_dir example_runtime ''/data/app.log''),
            (CRITICAL, ''Parsing failed with exception: [Errno 17] File exists: ''
               @ py_repr (default_output_dir example_runtime ''/data/app.log''))]\<rparr>)"
    by simp
  from a b h1 h2 h3 h5 show ?thesis by blast
qed

text \<open>
  The derived output directory of the run exists in \<open>occupied_world\<close>; the claim asks for
  a fault raised to the caller before any side effect, the code returns normally with
  three log entries, the last one the caught \<open>FileExistsError\<close>.
\<close>

theorem default_output_dir_exists_counterexample:
  "os_path_exists occupied_world ''/data/app.log''
   \<and> os_path_exists occupied_world (default_output_dir example_runtime ''/data/app.log'')
   \<and> parse_file example_runtime example_parser ''/data/app.log'' None occupied_world =
       (Inr (),
        occupied_world\<lparr>log :=
          [(INFO, ''Parsing: /data/app.log''),
           (INFO, ''Initializing output directory: /data/app_20240101_120000''),
           (CRITICAL, ''Parsing failed with exception: [Errno 17] File exists: ''
              @ [CHR 0x27] @ ''/data/app_20240101_120000'' @ [CHR 0x27])]\<rparr>)"
proof -
  have d: "default_output_dir example_runtime ''/data/app.log'' = ''/data/app_20240101_120000''"
    by (simp add: default_output_dir_def split_app_log os_path_join_def example_runtime_def slash_def)
  have e1: "os_path_exists occupied_world ''/data/app.log''"
    by (simp add: os_path_exists_def os_path_isfile_def occupied_world_def example_world_def)
  have e2: "os_path_exists occupied_world ''/data/app_20240101_120000''"
    by (simp add: os_path_exists_def os_path_isdir_def occupied_world_def example_world_def)
  have r: "py_repr ''/data/app_20240101_120000''
             = [CHR 0x27] @ ''/data/app_20240101_120000'' @ [CHR 0x27]"
    by code_simp
  have np: "no_missing_parent occupied_world ''/data/app_20240101_120000''"
    by code_simp
  let ?w1 = "occupied_world\<lparr>log := log occupied_world @ [(INFO, ''Parsing: /data/app.log'')]\<rparr>"
  have "os_path_exists ?w1 (or_else None (default_output_dir example_runtime ''/data/app.log''))"
    and "or_else None (default_output_dir example_runtime ''/data/app.log'') \<noteq> []"
    and "no_missing_parent ?w1 (or_else None (default_output_dir example_runtime ''/data/app.log''))"
    using e2 np by (simp_all add: d or_else_def os_path_exists_log no_missing_parent_def)
  from parse_file_main_makedirs_fails [OF this, of example_parser]
  have m: "parse_file_main example_runtime example_parser ''/data/app.log'' None ?w1 =
       (Inl (eexist ''/data/app_20240101_120000''),
        ?w1\<lparr>log := log ?w1
           @ [(INFO, ''Initializing output directory: /data/app_20240101_120000'')]\<rparr>)"
    by (simp add: d or_else_def)
  have l: "log occupied_world = []"
    by (simp add: occupied_world_def example_world_def)
  have "parse_file example_runtime example_parser ''/data/app.log'' None occupied_world =
       (Inr (),
        occupied_world\<lparr>log :=
          [(INFO, ''Parsing: /data/app.log''),
           (INFO, ''Initializing output directory: /data/app_20240101_120000''),
           (CRITICAL, ''Parsing failed with exception: [Errno 17] File exists: ''
              @ [CHR 0x27] @ ''/data/app_20240101_120000'' @ [CHR 0x27])]\<rparr>)"
    using e1 unfolding parse_file_def io_then_def io_bind_def io_try_def log_msg_def
    by (simp add: m [unfolded l, simplified] truthy_def eexist_def str_error_def r l)
  with e1 e2 d show ?thesis by simp
qed

section \<open>Properties of the chunk names\<close>

lemma keys_of_ok:
  "\<forall>f\<in>set fs. match_chunk_mask f \<noteq> None \<Longrightarrow> keys_of fs = Inr (map (\<lambda>f. (id_of_name f, f)) fs)"
  by (induction fs) (auto simp: key_def id_of_name_def split: option.splits)

lemma keys_of_fail:
  "\<exists>f\<in>set fs. match_chunk_mask f = None \<Longrightarrow> \<exists>msg. keys_of fs = Inl (AssertionError msg)"
proof (induction fs)
  case Nil
  then show ?case by simp
next
  case (Cons f fs)
  show ?case
  proof (cases "match_chunk_mask f")
    case None
    then show ?thesis by (simp add: key_def)
  next
    case (Some ds)
    with Cons.prems have "\<exists>f\<in>set fs. match_chunk_mask f = None" by auto
    from Cons.IH [OF this] obtain msg where "keys_of fs = Inl (AssertionError msg)" by blast
    then show ?thesis by (simp add: key_def Some)
  qed
qed

lemma insort_key_decorated:
  "insort_key fst (g x, x) (map (\<lambda>f. (g f, f)) ys) = map (\<lambda>f. (g f, f)) (insort_key g x ys)"
  by (induction ys) auto

lemma sort_key_decorated:
  "sort_key fst (map (\<lambda>f. (g f, f)) xs) = map (\<lambda>f. (g f, f)) (sort_key g xs)"
  by (induction xs) (simp_all add: insort_key_decorated)

lemma sorted_chunk_names_ok:
  assumes "\<forall>f\<in>set listing. re_match m f \<longrightarrow> match_chunk_mask f \<noteq> None"
  shows "sorted_chunk_names listing m = Inr (sort_key id_of_name (filter (re_match m) listing))"
proof -
  have "\<forall>f\<in>set (filter (re_match m) listing). match_chunk_mask f \<noteq> None"
    using assms by simp
  from keys_of_ok [OF this] show ?thesis
    by (simp add: sorted_chunk_names_def sort_key_decorated comp_def)
qed

lemma sorted_chunk_names_fail:
  assumes "\<exists>f\<in>set listing. re_match m f \<and> match_chunk_mask f = None"
  shows "\<exists>msg. sorted_chunk_names listing m = Inl (AssertionError msg)"
proof -
  have "\<exists>f\<in>set (filter (re_match m) listing). match_chunk_mask f = None"
    using assms by auto
  from keys_of_fail [OF this] show ?thesis
    by (auto simp: sorted_chunk_names_def)
qed

lemma takeWhile_digits_append:
  "\<forall>c\<in>set ds. is_digit c \<Longrightarrow> sfx = [] \<or> \<not> is_digit (hd sfx) \<Longrightarrow>
   takeWhile is_digit (ds @ sfx) = ds \<and> dropWhile is_digit (ds @ sfx) = sfx"
  by (cases sfx) (auto simp: takeWhile_append2 dropWhile_append2)

lemma dot_not_digit: "\<not> is_digit dot"
  by (simp add: is_digit_def dot_def)

lemma dropWhile_no_newline: "newline \<notin> set s \<Longrightarrow> dropWhile (\<lambda>c. c \<noteq> newline) s = []"
  by (induction s) auto

lemma match_chunk_mask_form:
  assumes "newline \<notin> set f"
  shows "match_chunk_mask f \<noteq> None \<longleftrightarrow>
         (\<exists>ds sfx. f = ''chunk_'' @ ds @ sfx \<and> ds \<noteq> [] \<and> (\<forall>c\<in>set ds. is_digit c)
                    \<and> (sfx = [] \<or> hd sfx = dot))"
proof
  assume m: "match_chunk_mask f \<noteq> None"
  then have sw: "startswith f ''chunk_''" by (auto simp: match_chunk_mask_def split: if_splits)
  let ?rest = "drop 6 f"
  let ?ds = "takeWhile is_digit ?rest"
  let ?sfx = "dropWhile is_digit ?rest"
  have len: "length ''chunk_'' = 6" by simp
  from sw have t: "take 6 f = ''chunk_''" unfolding startswith_def len .
  have "f = take 6 f @ ?rest" by simp
  with t have f: "f = ''chunk_'' @ ?rest" by simp
  have r: "?rest = ?ds @ ?sfx" by simp
  from m sw have ds: "?ds \<noteq> []" by (auto simp: match_chunk_mask_def Let_def split: if_splits)
  from m sw ds have "at_end ?sfx \<or> hd ?sfx = dot"
    by (auto simp: match_chunk_mask_def Let_def split: if_splits)
  moreover have "newline \<notin> set ?sfx"
  proof
    assume "newline \<in> set ?sfx"
    then have "newline \<in> set ?rest" by (rule set_dropWhileD)
    then have "newline \<in> set f" by (rule in_set_dropD)
    with assms show False by simp
  qed
  ultimately have "?sfx = [] \<or> hd ?sfx = dot" by (auto simp: at_end_def)
  moreover have "\<forall>c\<in>set ?ds. is_digit c" by (auto dest: set_takeWhileD)
  moreover have "f = ''chunk_'' @ ?ds @ ?sfx" using f by simp
  ultimately show "\<exists>ds sfx. f = ''chunk_'' @ ds @ sfx \<and> ds \<noteq> [] \<and> (\<forall>c\<in>set ds. is_digit c)
                    \<and> (sfx = [] \<or> hd sfx = dot)"
    using ds by blast
next
  assume "\<exists>ds sfx. f = ''chunk_'' @ ds @ sfx \<and> ds \<noteq> [] \<and> (\<forall>c\<in>set ds. is_digit c)
                    \<and> (sfx = [] \<or> hd sfx = dot)"
  then obtain ds sfx where f: "f = ''chunk_'' @ ds @ sfx" and ds: "ds \<noteq> []" "\<forall>c\<in>set ds. is_digit c"
    and sfx: "sfx = [] \<or> hd sfx = dot" by blast
  have sw: "startswith f ''chunk_''" by (simp add: f startswith_def)
  have rest: "drop 6 f = ds @ sfx" by (simp add: f)
  from sfx have "sfx = [] \<or> \<not> is_digit (hd sfx)" using dot_not_digit by auto
  from takeWhile_digits_append [OF ds(2) this]
  have tw: "takeWhile is_digit (ds @ sfx) = ds" "dropWhile is_digit (ds @ sfx) = sfx" by auto
  have "newline \<notin> set sfx" using assms f by simp
  then have "newline \<notin> set (tl sfx)" by (cases sfx) auto
  then have "dropWhile (\<lambda>c. c \<noteq> newline) (tl sfx) = []" by (rule dropWhile_no_newline)
  with sfx ds sw show "match_chunk_mask f \<noteq> None"
    by (auto simp: match_chunk_mask_def rest tw at_end_def Let_def)
qed

lemma stray_listing:
  "os_listdir example_runtime ''/out/.1_parsed/info'' stray_world =
     Inr [''notes.txt'', ''chunk_1.info.keys'', ''chunk_1.info.records'']"
  by code_simp

text \<open>
  Claim C10, as the code has it. \<open>get_sorted_chunk_names\<close> lists the directory, keeps the
  names that match the mask, and asserts of each of them the chunk pattern: when all of
  them match it, the result is these names ordered by their integer ID; when one of them
  does not, the call fails with an \<open>AssertionError\<close>. A name without a newline matches the
  pattern exactly when it is \<open>chunk_\<close>, digits, and then nothing or a dot and any suffix.
  A name that does not match the mask of the call is dropped before the assertion, so it
  fails no stage. The manifest of the splitting library does not match the pattern.
\<close>

theorem get_sorted_chunk_names_assertion:
  assumes "os_listdir rt src_dir_path w = Inr listing"
  shows "((\<forall>f\<in>set listing. re_match m f \<longrightarrow> match_chunk_mask f \<noteq> None) \<longrightarrow>
            (\<exists>names. get_sorted_chunk_names rt src_dir_path m w = Inr names
               \<and> mset names = mset (filter (re_match m) listing)
               \<and> sorted (map id_of_name names)))
       \<and> ((\<exists>f\<in>set listing. re_match m f \<and> match_chunk_mask f = None) \<longrightarrow>
            (\<exists>msg. get_sorted_chunk_names rt src_dir_path m w = Inl (AssertionError msg)))
       \<and> (\<forall>f. newline \<notin> set f \<longrightarrow>
             (match_chunk_mask f \<noteq> None \<longleftrightarrow>
              (\<exists>ds sfx. f = ''chunk_'' @ ds @ sfx \<and> ds \<noteq> [] \<and> (\<forall>c\<in>set ds. is_digit c)
                         \<and> (sfx = [] \<or> hd sfx = dot))))
       \<and> match_chunk_mask manifest_name = None"
proof (intro conjI impI allI)
  assume a: "\<forall>f\<in>set listing. re_match m f \<longrightarrow> match_chunk_mask f \<noteq> None"
  have "get_sorted_chunk_names rt src_dir_path m w =
          Inr (sort_key id_of_name (filter (re_match m) listing))"
    by (simp add: get_sorted_chunk_names_def assms sorted_chunk_names_ok [OF a])
  moreover have "mset (sort_key id_of_name (filter (re_match m) listing)) =
                 mset (filter (re_match m) listing)"
    by simp
  moreover have "sorted (map id_of_name (sort_key id_of_name (filter (re_match m) listing)))"
    by (rule sorted_sort_key)
  ultimately show "\<exists>names. get_sorted_chunk_names rt src_dir_path m w = Inr names
               \<and> mset names = mset (filter (re_match m) listing)
               \<and> sorted (map id_of_name names)"
    by blast
next
  assume "\<exists>f\<in>set listing. re_match m f \<and> match_chunk_mask f = None"
  from sorted_chunk_names_fail [OF this]
  show "\<exists>msg. get_sorted_chunk_names rt src_dir_path m w = Inl (AssertionError msg)"
    by (simp add: get_sorted_chunk_names_def assms)
next
  fix f assume "newline \<notin> set f"
  then show "match_chunk_mask f \<noteq> None \<longleftrightarrow>
              (\<exists>ds sfx. f = ''chunk_'' @ ds @ sfx \<and> ds \<noteq> [] \<and> (\<forall>c\<in>set ds. is_digit c)
                         \<and> (sfx = [] \<or> hd sfx = dot))"
    by (rule match_chunk_mask_form)
next
  show "match_chunk_mask manifest_name = None"
    by (simp add: match_chunk_mask_def manifest_name_def startswith_def)
qed

theorem get_sorted_chunk_names_assertion_witness:
  "os_listdir example_runtime ''/out/.1_parsed/info'' stray_world =
     Inr [''notes.txt'', ''chunk_1.info.keys'', ''chunk_1.info.records'']
   \<and> (\<exists>names. get_sorted_chunk_names example_runtime ''/out/.1_parsed/info'' (WithExt keys_ext)
                  stray_world = Inr names
        \<and> mset names = mset (filter (re_match (WithExt keys_ext))
                                [''notes.txt'', ''chunk_1.info.keys'', ''chunk_1.info.records''])
        \<and> sorted (map id_of_name names))
   \<and> (\<exists>msg. get_sorted_chunk_names example_runtime ''/out/.1_parsed/info'' AnyName stray_world
               = Inl (AssertionError msg))"
proof -
  let ?ls = "[''notes.txt'', ''chunk_1.info.keys'', ''chunk_1.info.records'']"
  have h1: "\<forall>f\<in>set ?ls. re_match (WithExt keys_ext) f \<longrightarrow> match_chunk_mask f \<noteq> None"
    by code_simp
  have h2: "\<exists>f\<in>set ?ls. re_match AnyName f \<and> match_chunk_mask f = None"
    by code_simp
  from get_sorted_chunk_names_assertion [OF stray_listing, of "WithExt keys_ext"] h1
  have a: "\<exists>names. get_sorted_chunk_names example_runtime ''/out/.1_parsed/info'' (WithExt keys_ext)
                  stray_world = Inr names
        \<and> mset names = mset (filter (re_match (WithExt keys_ext)) ?ls)
        \<and> sorted (map id_of_name names)"
    by blast
  from get_sorted_chunk_names_assertion [OF stray_listing, of AnyName] h2
  have b: "\<exists>msg. get_sorted_chunk_names example_runtime ''/out/.1_parsed/info'' AnyName stray_world
               = Inl (AssertionError msg)"
    by blast
  from a b stray_listing show ?thesis by blast
qed

text \<open>
  The file \<open>notes.txt\<close> lies in the parsed directory of the parser. The schema unifier
  lists that directory with the mask of the key files, the tabularizer with the mask of
  the record files, and the merger does not list it: stages 3 to 6 run through.
\<close>

theorem stray_file_ignored_counterexample:
 "fst (io_bind (io_read (get_final_table_headers example_runtime info_only ''/out/.1_parsed''))
        (\<lambda>headers. io_seq [create_temp_directory ''/out/.2_tabularized'' False,
                           tabularize_parsed_chunks example_runtime info_only ''/out/.1_parsed'' ''/out/.2_tabularized'' headers,
                           concatenate_unparsed_chunks example_runtime ''/out/.1_parsed'' ''/out'' ''app'',
                           concatenate_tabularized_chunks example_runtime info_only ''/out/.2_tabularized'' ''/out'' ''app''])
        stray_world) = Inr ()"
  by code_simp

section \<open>Properties of the schema unifier\<close>

lemma zero_less_one_char: "CHR ''0'' < CHR ''1''"
  by (simp add: less_char_def)

lemma header_sort_key_le:
  "header_sort_key x \<le> header_sort_key y \<Longrightarrow> header_before x y"
  using zero_less_one_char
  by (auto simp: header_sort_key_def header_before_def Cons_le_Cons split: if_splits)

lemma sorted_header_before:
  "sorted (map header_sort_key hs) \<Longrightarrow> sorted_wrt header_before hs"
  unfolding sorted_map by (erule sorted_wrt_mono_rel [rotated]) (simp add: header_sort_key_le)

lemma set_update_set: "set (set_update s xs) = set s \<union> set xs"
  by (simp add: set_update_def)

lemma set_update_distinct: "distinct (set_update s xs)"
  by (simp add: set_update_def)

lemma unique_keys_fold_set:
  "set (foldl (\<lambda>unique_keys lines. set_update unique_keys (keys_in_text lines)) acc texts) =
     set acc \<union> (\<Union>text\<in>set texts. set (keys_in_text text))"
  by (induction texts arbitrary: acc) (auto simp: set_update_set)

lemma unique_keys_fold_distinct:
  "distinct acc \<Longrightarrow>
   distinct (foldl (\<lambda>unique_keys lines. set_update unique_keys (keys_in_text lines)) acc texts)"
  by (induction texts arbitrary: acc) (auto simp: set_update_distinct)

lemma unique_keys_of_set:
  "set (unique_keys_of texts) = (\<Union>text\<in>set texts. set (keys_in_text text))"
  by (simp add: unique_keys_of_def unique_keys_fold_set)

lemma unique_keys_of_distinct: "distinct (unique_keys_of texts)"
  by (simp add: unique_keys_of_def unique_keys_fold_distinct)

lemma sorted_by_key_unique:
  assumes "sorted (map k xs)" "distinct xs" "sorted (map k ys)" "distinct ys"
    and "set xs = set ys" and "inj_on k (set ys)"
  shows "xs = ys"
proof -
  have "distinct (map k xs)" "distinct (map k ys)"
    using assms by (simp_all add: distinct_map)
  moreover have "set (map k xs) = set (map k ys)" using assms(5) by simp
  ultimately have "map k xs = map k ys"
    using assms(1,3) by (intro sorted_distinct_set_unique)
  moreover have "inj_on k (set xs \<union> set ys)" using assms(5,6) by simp
  ultimately show ?thesis by (simp add: inj_on_map_eq_map)
qed

lemma example_keys_order:
  assumes "set hs = {''b'', ''_z'', ''A'', ''_a''}" "distinct hs" "sorted (map header_sort_key hs)"
  shows "hs = [''_a'', ''_z'', ''A'', ''b'']"
proof (rule sorted_by_key_unique [where k = header_sort_key])
  show "sorted (map header_sort_key [''_a'', ''_z'', ''A'', ''b''])" by code_simp
  show "distinct [''_a'', ''_z'', ''A'', ''b'']" by simp
  show "set hs = set [''_a'', ''_z'', ''A'', ''b'']" using assms(1) by auto
  show "inj_on header_sort_key (set [''_a'', ''_z'', ''A'', ''b''])" by code_simp
qed (use assms in auto)

lemma parser_table_headers_spec:
  assumes "runtime_ok rt"
    and "parser_table_headers rt src_dir_path parser_name w = Inr hs"
  shows "\<exists>names texts.
           get_sorted_chunk_names rt (os_path_join src_dir_path parser_name) (WithExt keys_ext) w
             = Inr names
         \<and> sum_map (\<lambda>n. read_text (os_path_join (os_path_join src_dir_path parser_name) n) w) names
             = Inr texts
         \<and> set hs = (\<Union>text\<in>set texts. set (keys_in_text text))
         \<and> distinct hs
         \<and> sorted (map header_sort_key hs)"
proof -
  from assms(2) obtain names texts where
    n: "get_sorted_chunk_names rt (os_path_join src_dir_path parser_name) (WithExt keys_ext) w = Inr names"
    and t: "sum_map (\<lambda>file_path. read_text file_path w)
              (map (os_path_join (os_path_join src_dir_path parser_name)) names) = Inr texts"
    and hs: "hs = sort_key header_sort_key (set_order rt (unique_keys_of texts))"
    by (auto simp: parser_table_headers_def Let_def split: sum.splits)
  have sm: "sum_map f (map g xs) = sum_map (\<lambda>x. f (g x)) xs" for f :: "string \<Rightarrow> error + string" and g xs
    by (induction xs) (auto split: sum.splits)
  have m: "mset (set_order rt (unique_keys_of texts)) = mset (unique_keys_of texts)"
    using assms(1) by (simp add: runtime_ok_def)
  have "set hs = (\<Union>text\<in>set texts. set (keys_in_text text))"
    using mset_eq_setD [OF m] by (simp add: hs unique_keys_of_set)
  moreover have "distinct hs"
    using mset_eq_imp_distinct_iff [OF m] by (simp add: hs unique_keys_of_distinct)
  moreover have "sorted (map header_sort_key hs)" by (simp add: hs)
  ultimately show ?thesis using n t by (auto simp: sm)
qed

lemma table_headers_loop_lookup:
  assumes "table_headers_loop rt src_dir_path ps acc w = Inr headers_dict"
  shows "(\<forall>p\<in>set ps. \<exists>hs. parser_table_headers rt src_dir_path (short_name p) w = Inr hs
                         \<and> map_of headers_dict (short_name p) = Some hs)
         \<and> (\<forall>n. n \<notin> short_name ` set ps \<longrightarrow> map_of headers_dict n = map_of acc n)"
  using assms
proof (induction ps arbitrary: acc)
  case Nil
  then show ?case by simp
next
  case (Cons q ps)
  from Cons.prems obtain sk where
    sk: "parser_table_headers rt src_dir_path (short_name q) w = Inr sk"
    and rest: "table_headers_loop rt src_dir_path ps (AList.update (short_name q) sk acc) w
                 = Inr headers_dict"
    by (auto split: sum.splits)
  note ih = Cons.IH [OF rest]
  have "map_of headers_dict (short_name q) = Some sk"
  proof (cases "short_name q \<in> short_name ` set ps")
    case True
    then obtain p where "p \<in> set ps" "short_name p = short_name q" by auto
    with ih sk show ?thesis by force
  next
    case False
    with ih show ?thesis by (simp add: update_conv')
  qed
  with sk ih show ?case by (auto simp: update_conv')
qed

lemma example_runtime_ok: "runtime_ok example_runtime"
  by (simp add: runtime_ok_def example_runtime_def)

lemma keys_world_headers:
  "get_final_table_headers example_runtime info_only ''/p'' keys_world =
     Inr [(''info'', [''_a'', ''_z'', ''A'', ''b''])]"
  by code_simp

text \<open>
  Claim C4. When \<open>_get_final_table_headers\<close> returns, the entry of each configured parser
  is a list without duplicates of exactly the field names read from the key files of that
  parser, the names that begin with an underscore before all others and, within each of
  the two groups, in the order of the names in lower case. For the key set
  \<open>{b, _z, A, _a}\<close> it is \<open>[_a, _z, A, b]\<close>, whatever the order in which the set is iterated.
\<close>

theorem get_final_table_headers_sorted_union:
  assumes "runtime_ok rt"
    and "get_final_table_headers rt self src_dir_path w = Inr headers_dict"
    and "parser \<in> set (log_parsers self)"
  shows "\<exists>names texts hs.
           get_sorted_chunk_names rt (os_path_join src_dir_path (short_name parser))
             (WithExt keys_ext) w = Inr names
         \<and> sum_map (\<lambda>n. read_text (os_path_join (os_path_join src_dir_path (short_name parser)) n) w)
             names = Inr texts
         \<and> map_of headers_dict (short_name parser) = Some hs
         \<and> set hs = (\<Union>text\<in>set texts. set (keys_in_text text))
         \<and> distinct hs
         \<and> sorted_wrt header_before hs
         \<and> ((\<Union>text\<in>set texts. set (keys_in_text text)) = {''b'', ''_z'', ''A'', ''_a''}
              \<longrightarrow> hs = [''_a'', ''_z'', ''A'', ''b''])"
proof -
  from table_headers_loop_lookup [OF assms(2) [unfolded get_final_table_headers_def]] assms(3)
  obtain hs where p: "parser_table_headers rt src_dir_path (short_name parser) w = Inr hs"
    and l: "map_of headers_dict (short_name parser) = Some hs"
    by blast
  from parser_table_headers_spec [OF assms(1) p] obtain names texts where
    n: "get_sorted_chunk_names rt (os_path_join src_dir_path (short_name parser))
             (WithExt keys_ext) w = Inr names"
    and t: "sum_map (\<lambda>n. read_text (os_path_join (os_path_join src_dir_path (short_name parser)) n) w)
             names = Inr texts"
    and s: "set hs = (\<Union>text\<in>set texts. set (keys_in_text text))"
    and d: "distinct hs" and o: "sorted (map header_sort_key hs)"
    by blast
  have "(\<Union>text\<in>set texts. set (keys_in_text text)) = {''b'', ''_z'', ''A'', ''_a''}
              \<longrightarrow> hs = [''_a'', ''_z'', ''A'', ''b'']"
    using example_keys_order [OF _ d o] s by simp
  with n t l s d sorted_header_before [OF o] show ?thesis by blast
qed

theorem get_final_table_headers_sorted_union_witness:
  "runtime_ok example_runtime
   \<and> get_final_table_headers example_runtime info_only ''/p'' keys_world =
       Inr [(''info'', [''_a'', ''_z'', ''A'', ''b''])]
   \<and> (\<exists>names texts hs.
           get_sorted_chunk_names example_runtime (os_path_join ''/p'' (short_name info_parser))
             (WithExt keys_ext) keys_world = Inr names
         \<and> sum_map (\<lambda>n. read_text (os_path_join (os_path_join ''/p'' (short_name info_parser)) n)
                           keys_world) names = Inr texts
         \<and> map_of [(''info'', [''_a'', ''_z'', ''A'', ''b''])] (short_name info_parser) = Some hs
         \<and> set hs = (\<Union>text\<in>set texts. set (keys_in_text text))
         \<and> distinct hs
         \<and> sorted_wrt header_before hs)"
proof -
  have m: "info_parser \<in> set (log_parsers info_only)"
    by (simp add: info_only_def)
  from get_final_table_headers_sorted_union [OF example_runtime_ok keys_world_headers m]
    example_runtime_ok keys_world_headers
  show ?thesis by blast
qed

section \<open>Properties of the merger\<close>


















end
